theory Spec2Isabelle
  imports Complex_Main
begin

section \<open>Tables of the schema\<close>

text \<open>
  The rows of the relational store, column by column as the schema and the
  TypeScript interfaces declare them. Columns that occur in several tables
  (\<open>id\<close>, \<open>date\<close>, \<open>username\<close>, \<open>wh_name\<close>, \<open>warehouse_name\<close>, \<open>created_at\<close>)
  carry a table prefix. A \<open>uuid\<close> is the text of it. A \<open>date\<close> column holds a
  calendar day, not the text a client wrote it with. A \<open>timestamptz\<close> is the
  millisecond count \<open>Date.getTime()\<close> reads from it. The \<open>decimal(5,2)\<close> column
  holds a whole number of hundredths. The integer columns of
  \<open>worker_performance\<close> hold what the store's \<open>integer\<close> type admits; those of
  \<open>counting_data\<close> are unbounded integers.
\<close>

type_synonym uuid = string
type_synonym timestamptz = int

datatype date = Date nat nat nat

datatype session_status = active | completed

record User =
  u_id :: uuid
  user_id :: string
  u_warehouse_name :: "string option"

record CountingSession =
  cs_id :: uuid
  worker_id :: uuid
  team_leader_id :: uuid
  cs_warehouse_name :: string
  start_time :: timestamptz
  end_time :: "timestamptz option"
  status :: session_status

record CountingData =
  cd_id :: uuid
  session_id :: uuid
  cd_wh_name :: string
  cd_date :: date
  tl_name :: string
  cd_username :: string
  bin_no :: string
  qty_counted :: int
  qty_recounted_tl :: "int option"
  qty_as_per_books :: int
  difference :: int
  reason_for_difference :: "string option"
  cd_created_at :: timestamptz

record WorkerPerformance =
  wp_id :: uuid
  wp_wh_name :: string
  wp_date :: date
  wp_username :: string
  no_of_bins_counted :: int
  no_of_qty_counted :: int
  time_taken_minutes :: int
  efficiency :: rat
  ranking :: "int option"
  wp_created_at :: timestamptz

record AuditLog =
  al_id :: uuid
  al_user_id :: uuid
  action :: string
  details :: string
  al_created_at :: timestamptz

record db =
  users :: "User list"
  counting_sessions :: "CountingSession list"
  counting_data :: "CountingData list"
  worker_performance :: "WorkerPerformance list"
  audit_logs :: "AuditLog list"

text \<open>The errors the store reports to a handler as \<open>error.message\<close>.\<close>

datatype store_error =
  unique_violation
  | not_null_violation string
  | generated_always string
  | numeric_value_out_of_range
  | invalid_datetime_format
  | limit_refused

text \<open>
  What a request reads from outside the tables. From the clock: the
  handler's date text (\<open>new Date().toISOString().split('T')[0]\<close>), the store's
  \<open>CURRENT_DATE\<close> and \<open>now()\<close> column defaults. From the generator: the value
  \<open>gen_random_uuid()\<close> yields for the one row a request may insert into each
  table. From the store's configuration, none of which is among the
  sources: \<open>date_in\<close>, the day the store reads a text as when the text meets
  a \<open>date\<close> column (nothing when it refuses the text); \<open>other_limit\<close>, what the
  store does with a limit that is not a number, is negative or has more
  than 31 bits (it refuses the query, or cuts the rows at a number, or does
  not cut them); \<open>max_rows\<close>, the most rows the store puts in one answer, when
  it has such a bound.
\<close>

record env =
  today :: string
  current_date :: date
  now :: timestamptz
  uuid_counting_sessions :: uuid
  uuid_counting_data :: uuid
  uuid_worker_performance :: uuid
  uuid_audit_logs :: uuid
  date_in :: "string \<Rightarrow> date option"
  other_limit :: "int option \<Rightarrow> store_error + nat option"
  max_rows :: "nat option"

section \<open>Requests and responses\<close>

text \<open>
  A request with its method, its Authorization header, the path and query of
  its URL and its parsed JSON body. The body of \<open>POST /counting-data\<close> keeps the
  four members the handler destructures; every other member a client sends
  (a \<open>difference\<close>, say) is in \<open>other_members\<close>. The body of
  \<open>POST /worker-performance\<close> is a row with any of its columns left out, its
  date as the text the client wrote. The same record is the object a handler
  hands to \<open>insert\<close>.
\<close>

record 'b Request =
  req_method :: string
  authorization :: "string option"
  pathname :: string
  searchParams :: "(string \<times> string) list"
  json :: 'b

record CountBody =
  sessionId :: uuid
  binNo :: string
  qtyCountedWorker :: int
  qtyAsPerBooks :: int
  other_members :: "(string \<times> int) list"

record performanceData =
  pd_id :: "uuid option"
  pd_wh_name :: "string option"
  pd_date :: "string option"
  pd_username :: "string option"
  pd_no_of_bins_counted :: "int option"
  pd_no_of_qty_counted :: "int option"
  pd_time_taken_minutes :: "int option"
  pd_efficiency :: "rat option"
  pd_ranking :: "int option"

record WorkerStats =
  todayBins :: int
  todayQuantity :: int
  todayTime :: int
  stats_efficiency :: rat
  stats_ranking :: int

datatype body =
  Null
  | Error string
  | StoreError store_error
  | CountingDataJ CountingData
  | CountingDataList "CountingData list"
  | PerformanceJ WorkerPerformance
  | PerformanceList "WorkerPerformance list"
  | StatsJ WorkerStats

datatype Response = Response (http_status: nat) (payload: body)

section \<open>The store\<close>

text \<open>\<open>.single()\<close>: the row when the query selects exactly one, nothing otherwise.\<close>

definition single :: "'a list \<Rightarrow> 'a option" where
  "single xs = (case xs of [x] \<Rightarrow> Some x | _ \<Rightarrow> None)"

text \<open>
  The generated column of \<open>counting_data\<close>:
  \<open>COALESCE(qty_recounted_tl, qty_counted) - qty_as_per_books\<close>, written by the
  store whenever it stores a row.
\<close>

definition COALESCE :: "'a option \<Rightarrow> 'a \<Rightarrow> 'a" where
  "COALESCE a b = (case a of Some v \<Rightarrow> v | None \<Rightarrow> b)"

definition stored :: "CountingData \<Rightarrow> CountingData" where
  "stored r = r\<lparr>difference := COALESCE (qty_recounted_tl r) (qty_counted r) - qty_as_per_books r\<rparr>"

text \<open>
  \<open>INSERT INTO counting_data\<close> with the seven columns the handler supplies; the
  other columns take their defaults and the primary key must be new.
\<close>

definition insert_counting_data ::
  "env \<Rightarrow> db \<Rightarrow> uuid \<Rightarrow> string \<Rightarrow> string \<Rightarrow> string \<Rightarrow> string \<Rightarrow> int \<Rightarrow> int
     \<Rightarrow> store_error + (db \<times> CountingData)" where
  "insert_counting_data e d sid wh tln usr bin qty books =
     (let r = stored \<lparr>cd_id = uuid_counting_data e, session_id = sid, cd_wh_name = wh,
                cd_date = current_date e, tl_name = tln, cd_username = usr, bin_no = bin,
                qty_counted = qty, qty_recounted_tl = None, qty_as_per_books = books,
                difference = 0, reason_for_difference = None, cd_created_at = now e\<rparr>
      in if cd_id r \<in> set (map cd_id (counting_data d)) then Inl unique_violation
         else Inr (d\<lparr>counting_data := counting_data d @ [r]\<rparr>, r))"

text \<open>
  \<open>UPDATE counting_data ... WHERE id = ...\<close>: the columns a writer may name, among
  them the generated one, which the store accepts no value for.
\<close>

record CountingDataPatch =
  set_qty_counted :: "int option"
  set_qty_recounted_tl :: "int option option"
  set_qty_as_per_books :: "int option"
  set_reason_for_difference :: "string option option"
  set_difference :: "int option"

definition patched :: "CountingDataPatch \<Rightarrow> CountingData \<Rightarrow> CountingData" where
  "patched p r = stored (r\<lparr>
     qty_counted := COALESCE (set_qty_counted p) (qty_counted r),
     qty_recounted_tl := COALESCE (set_qty_recounted_tl p) (qty_recounted_tl r),
     qty_as_per_books := COALESCE (set_qty_as_per_books p) (qty_as_per_books r),
     reason_for_difference := COALESCE (set_reason_for_difference p) (reason_for_difference r)\<rparr>)"

definition update_counting_data :: "db \<Rightarrow> uuid \<Rightarrow> CountingDataPatch \<Rightarrow> store_error + db" where
  "update_counting_data d i p =
     (if set_difference p \<noteq> None then Inl (generated_always ''difference'')
      else Inr (d\<lparr>counting_data :=
                  map (\<lambda>r. if cd_id r = i then patched p r else r) (counting_data d)\<rparr>))"

text \<open>
  The column types of \<open>worker_performance\<close>. An \<open>integer\<close> column takes the
  integers of 32 bits and refuses the others. The \<open>decimal(5,2)\<close> column
  rounds what it is given to hundredths, a tie going away from zero, and
  refuses what then needs more than three digits before the point.
\<close>

definition int4 :: "int \<Rightarrow> bool" where
  "int4 i \<longleftrightarrow> - (2 ^ 31) \<le> i \<and> i < 2 ^ 31"

definition int4_or_absent :: "int option \<Rightarrow> bool" where
  "int4_or_absent v = (case v of None \<Rightarrow> True | Some i \<Rightarrow> int4 i)"

definition round_away :: "rat \<Rightarrow> int" where
  "round_away x = (if 0 \<le> x then \<lfloor>x + 1 / 2\<rfloor> else - \<lfloor>- x + 1 / 2\<rfloor>)"

definition numeric_5_2 :: "rat \<Rightarrow> rat option" where
  "numeric_5_2 x =
     (let hundredths = round_away (x * 100)
      in if \<bar>hundredths\<bar> < 100000 then Some (of_int hundredths / 100) else None)"

text \<open>
  \<open>INSERT INTO worker_performance\<close>: the values are read into the types of
  their columns, \<open>wh_name\<close> and \<open>username\<close> are NOT NULL without a default,
  the other columns default, the primary key must be new. Nothing in the
  schema makes \<open>(username, date)\<close> unique.
\<close>

definition insert_worker_performance ::
  "env \<Rightarrow> db \<Rightarrow> performanceData \<Rightarrow> store_error + (db \<times> WorkerPerformance)" where
  "insert_worker_performance e d p =
     (case (case pd_date p of None \<Rightarrow> Some (current_date e) | Some t \<Rightarrow> date_in e t) of
        None \<Rightarrow> Inl invalid_datetime_format
      | Some day \<Rightarrow>
     (if \<not> (int4_or_absent (pd_no_of_bins_counted p) \<and> int4_or_absent (pd_no_of_qty_counted p) \<and>
             int4_or_absent (pd_time_taken_minutes p) \<and> int4_or_absent (pd_ranking p))
      then Inl numeric_value_out_of_range
      else
     (case numeric_5_2 (COALESCE (pd_efficiency p) 0) of
        None \<Rightarrow> Inl numeric_value_out_of_range
      | Some hundredths \<Rightarrow>
     (case pd_wh_name p of
        None \<Rightarrow> Inl (not_null_violation ''wh_name'')
      | Some wh \<Rightarrow>
     (case pd_username p of
        None \<Rightarrow> Inl (not_null_violation ''username'')
      | Some usr \<Rightarrow>
         (let r = \<lparr>wp_id = COALESCE (pd_id p) (uuid_worker_performance e),
                   wp_wh_name = wh,
                   wp_date = day,
                   wp_username = usr,
                   no_of_bins_counted = COALESCE (pd_no_of_bins_counted p) 0,
                   no_of_qty_counted = COALESCE (pd_no_of_qty_counted p) 0,
                   time_taken_minutes = COALESCE (pd_time_taken_minutes p) 0,
                   efficiency = hundredths,
                   ranking = pd_ranking p,
                   wp_created_at = now e\<rparr>
          in if wp_id r \<in> set (map wp_id (worker_performance d)) then Inl unique_violation
             else Inr (d\<lparr>worker_performance := worker_performance d @ [r]\<rparr>, r)))))))"

text \<open>
  \<open>UPDATE worker_performance SET ... WHERE id = ...\<close>: the columns the handlers
  assign. The values are read into the types of their columns first; when
  one is refused no row is changed.
\<close>

record PerformancePatch =
  set_no_of_bins_counted :: "int option"
  set_no_of_qty_counted :: "int option"
  set_time_taken_minutes :: "int option"
  set_efficiency :: "rat option"
  set_ranking :: "int option"

definition assigned :: "PerformancePatch \<Rightarrow> rat option \<Rightarrow> WorkerPerformance \<Rightarrow> WorkerPerformance" where
  "assigned p hundredths r = r\<lparr>
     no_of_bins_counted := COALESCE (set_no_of_bins_counted p) (no_of_bins_counted r),
     no_of_qty_counted := COALESCE (set_no_of_qty_counted p) (no_of_qty_counted r),
     time_taken_minutes := COALESCE (set_time_taken_minutes p) (time_taken_minutes r),
     efficiency := COALESCE hundredths (efficiency r),
     ranking := (case set_ranking p of None \<Rightarrow> ranking r | Some k \<Rightarrow> Some k)\<rparr>"

definition update_worker_performance :: "db \<Rightarrow> uuid \<Rightarrow> PerformancePatch \<Rightarrow> store_error + db" where
  "update_worker_performance d i p =
     (if \<not> (int4_or_absent (set_no_of_bins_counted p) \<and> int4_or_absent (set_no_of_qty_counted p) \<and>
             int4_or_absent (set_time_taken_minutes p) \<and> int4_or_absent (set_ranking p))
      then Inl numeric_value_out_of_range
      else
        (case (case set_efficiency p of None \<Rightarrow> Some None
               | Some x \<Rightarrow> map_option Some (numeric_5_2 x)) of
           None \<Rightarrow> Inl numeric_value_out_of_range
         | Some hundredths \<Rightarrow>
             Inr (d\<lparr>worker_performance :=
                    map (\<lambda>r. if wp_id r = i then assigned p hundredths r else r)
                      (worker_performance d)\<rparr>)))"

definition insert_audit_logs :: "env \<Rightarrow> db \<Rightarrow> uuid \<Rightarrow> string \<Rightarrow> string \<Rightarrow> store_error + db" where
  "insert_audit_logs e d uid act det =
     (let r = \<lparr>al_id = uuid_audit_logs e, al_user_id = uid, action = act, details = det,
               al_created_at = now e\<rparr>
      in if al_id r \<in> set (map al_id (audit_logs d)) then Inl unique_violation
         else Inr (d\<lparr>audit_logs := audit_logs d @ [r]\<rparr>))"

text \<open>A write whose result the handler does not look at: a failure leaves the store as it was.\<close>

definition not_checked :: "db \<Rightarrow> store_error + db \<Rightarrow> db" where
  "not_checked d r = (case r of Inl _ \<Rightarrow> d | Inr d' \<Rightarrow> d')"

text \<open>The rows of one answer, cut at the store's bound when it has one.\<close>

definition capped :: "nat option \<Rightarrow> 'a list \<Rightarrow> 'a list" where
  "capped bound rows = (case bound of None \<Rightarrow> rows | Some k \<Rightarrow> take k rows)"

section \<open>JavaScript helpers\<close>

text \<open>A string is falsy exactly when it is empty; a missing value is falsy.\<close>

definition truthy :: "string option \<Rightarrow> bool" where
  "truthy v = (case v of None \<Rightarrow> False | Some s \<Rightarrow> s \<noteq> [])"

text \<open>\<open>url.searchParams.get(name)\<close>: the first value of the name, if any.\<close>

definition get :: "(string \<times> string) list \<Rightarrow> string \<Rightarrow> string option" where
  "get params name = map_of params name"

text \<open>\<open>a || b\<close> on an optional string and a default.\<close>

definition or_else :: "string option \<Rightarrow> string \<Rightarrow> string" where
  "or_else v dflt = (case v of None \<Rightarrow> dflt | Some s \<Rightarrow> if s = [] then dflt else s)"

text \<open>\<open>existingPerf?.column || 0\<close> on a numeric column.\<close>

definition or_0 :: "('r \<Rightarrow> 'n::zero) \<Rightarrow> 'r option \<Rightarrow> 'n" where
  "or_0 column row = (case row of None \<Rightarrow> 0 | Some r \<Rightarrow> column r)"

text \<open>
  A number is an IEEE 754 double. The result of an arithmetic operation is
  the double nearest to the exact result: the exact result is scaled by
  powers of two until its integer part has 53 bits, rounded to an integer, a
  tie going to the even one, and scaled back. The scaling stops after 1074
  steps, where the doubles stop getting finer. Results from \<open>2 ^ 1024\<close> on,
  which a double gives as \<open>Infinity\<close>, are outside this model.
\<close>

fun significand :: "nat \<Rightarrow> rat \<Rightarrow> rat \<Rightarrow> rat \<times> rat" where
  "significand 0 q ulp = (q, ulp)"
| "significand (Suc fuel) q ulp =
     (if q < 2 ^ 52 then significand fuel (q * 2) (ulp / 2)
      else if 2 ^ 53 \<le> q then significand fuel (q / 2) (ulp * 2)
      else (q, ulp))"

definition round_half_even :: "rat \<Rightarrow> int" where
  "round_half_even q =
     (let f = \<lfloor>q\<rfloor>
      in if q - of_int f < 1 / 2 then f
         else if 1 / 2 < q - of_int f then f + 1
         else if even f then f else f + 1)"

definition double :: "rat \<Rightarrow> rat" where
  "double x =
     (if x = 0 then 0
      else (case significand 1074 \<bar>x\<bar> 1 of
              (q, ulp) \<Rightarrow> sgn x * of_int (round_half_even q) * ulp))"

text \<open>\<open>Math.round\<close>: the nearest integer, a tie going up.\<close>

definition Math_round :: "rat \<Rightarrow> int" where
  "Math_round x = \<lfloor>x + 1 / 2\<rfloor>"

text \<open>\<open>String.prototype.split\<close> on one separator character.\<close>

fun split :: "char \<Rightarrow> string \<Rightarrow> string list" where
  "split c [] = [[]]"
| "split c (x # xs) =
     (if x = c then [] # split c xs
      else (case split c xs of [] \<Rightarrow> [[x]] | w # ws \<Rightarrow> (x # w) # ws))"

text \<open>The decimal text a template literal gives an integer.\<close>

fun digits :: "nat \<Rightarrow> string" where
  "digits n =
     (if n < 10 then [''0123456789'' ! n]
      else digits (n div 10) @ [''0123456789'' ! (n mod 10)])"

declare digits.simps [simp del]

definition String_of_int :: "int \<Rightarrow> string" where
  "String_of_int i = (if i < 0 then CHR ''-'' # digits (nat (- i)) else digits (nat i))"

text \<open>
  \<open>parseInt\<close> without a radix: leading white space, a sign, a \<open>0x\<close> prefix, then
  the longest run of digits; \<open>None\<close> is \<open>NaN\<close>.
\<close>

definition is_white_space :: "char \<Rightarrow> bool" where
  "is_white_space c = (of_char c \<in> {32, 9, 10, 11, 12, 13 :: nat})"

definition digit_of :: "char \<Rightarrow> nat option" where
  "digit_of c =
     (let n = of_char c :: nat
      in if 48 \<le> n \<and> n \<le> 57 then Some (n - 48)
         else if 97 \<le> n \<and> n \<le> 102 then Some (n - 87)
         else if 65 \<le> n \<and> n \<le> 70 then Some (n - 55)
         else None)"

fun radix_digits :: "nat \<Rightarrow> string \<Rightarrow> nat option \<Rightarrow> nat option" where
  "radix_digits R [] acc = acc"
| "radix_digits R (c # cs) acc =
     (case digit_of c of
        None \<Rightarrow> acc
      | Some v \<Rightarrow>
          if v < R then radix_digits R cs (Some (R * (case acc of None \<Rightarrow> 0 | Some a \<Rightarrow> a) + v))
          else acc)"

definition parseInt :: "string \<Rightarrow> int option" where
  "parseInt str =
     (let s = dropWhile is_white_space str;
          negative = (take 1 s = ''-'');
          s1 = (if take 1 s = ''-'' \<or> take 1 s = ''+'' then drop 1 s else s);
          hex = (take 2 s1 = ''0x'' \<or> take 2 s1 = ''0X'');
          z = (if hex then radix_digits 16 (drop 2 s1) None else radix_digits 10 s1 None)
      in map_option (\<lambda>n. if negative then - int n else int n) z)"

section \<open>The counting-data function\<close>

text \<open>What reading \<open>user_id\<close> of a missing joined row throws, caught as a 500.\<close>

definition null_user_id :: string where
  "null_user_id = ''Cannot read properties of null (reading 'user_id')''"

text \<open>
  The reads of the handlers: a session by its id, with \<open>.single()\<close>; the user
  a foreign key of the session joins to it; the row of a username and of
  the handler's date, with \<open>.single()\<close>, whose error no handler looks at: when
  the store refuses the date text, or selects no row or several, the
  handler has nothing.
\<close>

definition session_by_id :: "db \<Rightarrow> uuid \<Rightarrow> CountingSession option" where
  "session_by_id d sid = single (filter (\<lambda>s. cs_id s = sid) (counting_sessions d))"

definition joined_user :: "db \<Rightarrow> uuid \<Rightarrow> User option" where
  "joined_user d uid = find (\<lambda>u. u_id u = uid) (users d)"

definition performance_today :: "env \<Rightarrow> db \<Rightarrow> string \<Rightarrow> WorkerPerformance option" where
  "performance_today e d usr =
     (case date_in e (today e) of
        None \<Rightarrow> None
      | Some day \<Rightarrow>
          single (filter (\<lambda>p. wp_username p = usr \<and> wp_date p = day) (worker_performance d)))"

text \<open>
  The time taken: the stored minutes, or 0, unless the session has an end;
  then the rounded minutes from its start to its end.
\<close>

definition timeTaken :: "CountingSession \<Rightarrow> WorkerPerformance option \<Rightarrow> int" where
  "timeTaken session existingPerf =
     (case end_time session of
        None \<Rightarrow> or_0 time_taken_minutes existingPerf
      | Some endTime \<Rightarrow>
          Math_round (double (double (of_int (endTime - start_time session)) / (1000 * 60))))"

text \<open>Bins per hour, to two decimals.\<close>

definition efficiency_of :: "int \<Rightarrow> int \<Rightarrow> rat" where
  "efficiency_of newBinsCount minutes =
     (if minutes > 0
      then double (of_int (Math_round
             (double (double (of_int newBinsCount / double (of_int minutes / 60)) * 100))) / 100)
      else 0)"

text \<open>
  The update of the worker's row of the day: read with \<open>.single()\<close>, totals
  recomputed, then written to the row of that id, or inserted when nothing
  was read. The result of the write is not looked at.
\<close>

definition update_performance ::
  "env \<Rightarrow> db \<Rightarrow> CountingSession \<Rightarrow> User \<Rightarrow> int \<Rightarrow> db" where
  "update_performance e d session worker qtyCountedWorker' =
     (let existingPerf = performance_today e d (user_id worker);
          newBinsCount = or_0 no_of_bins_counted existingPerf + 1;
          newQtyCount = or_0 no_of_qty_counted existingPerf + qtyCountedWorker';
          minutes = timeTaken session existingPerf;
          efficiency' = efficiency_of newBinsCount minutes
      in case existingPerf of
           Some p \<Rightarrow>
             not_checked d
               (update_worker_performance d (wp_id p)
                  \<lparr>set_no_of_bins_counted = Some newBinsCount,
                   set_no_of_qty_counted = Some newQtyCount,
                   set_time_taken_minutes = Some minutes,
                   set_efficiency = Some efficiency',
                   set_ranking = None\<rparr>)
         | None \<Rightarrow>
             not_checked d (map_sum id fst
               (insert_worker_performance e d
                  \<lparr>pd_id = None,
                   pd_wh_name = Some (cs_warehouse_name session),
                   pd_date = Some (today e),
                   pd_username = Some (user_id worker),
                   pd_no_of_bins_counted = Some newBinsCount,
                   pd_no_of_qty_counted = Some newQtyCount,
                   pd_time_taken_minutes = Some minutes,
                   pd_efficiency = Some efficiency',
                   pd_ranking = None\<rparr>)))"

text \<open>
  The POST branch. The session is read with its worker and its team leader
  joined; the count is inserted; the worker's row of the day is updated; an
  audit entry is appended. Only the first insert is checked for an error.
\<close>

definition recordCount :: "env \<Rightarrow> db \<Rightarrow> CountBody \<Rightarrow> db \<times> Response" where
  "recordCount e d b =
     (case session_by_id d (sessionId b) of
        None \<Rightarrow> (d, Response 404 (Error ''Session not found''))
      | Some session \<Rightarrow>
     (case joined_user d (team_leader_id session) of
        None \<Rightarrow> (d, Response 500 (Error null_user_id))
      | Some team_leader \<Rightarrow>
     (case joined_user d (worker_id session) of
        None \<Rightarrow> (d, Response 500 (Error null_user_id))
      | Some worker \<Rightarrow>
     (case insert_counting_data e d (sessionId b) (cs_warehouse_name session)
             (user_id team_leader) (user_id worker) (binNo b)
             (qtyCountedWorker b) (qtyAsPerBooks b) of
        Inl insertError \<Rightarrow> (d, Response 400 (StoreError insertError))
      | Inr (d1, countingData) \<Rightarrow>
         (let d2 = update_performance e d1 session worker (qtyCountedWorker b);
              d3 = not_checked d2
                     (insert_audit_logs e d2 (worker_id session) ''COUNT_BIN''
                        (''Counted bin '' @ binNo b @ '': '' @ String_of_int (qtyCountedWorker b)
                           @ '' units''))
          in (d3, Response 200 (CountingDataJ countingData)))))))"

text \<open>
  The GET branch: the filters that are present, most recent first. A date
  text the store refuses makes the query fail.
\<close>

definition listCountingData :: "env \<Rightarrow> db \<Rightarrow> (string \<times> string) list \<Rightarrow> Response" where
  "listCountingData e d params =
     (let sessionId' = get params ''sessionId'';
          workerId = get params ''workerId'';
          date' = get params ''date'';
          q1 = (if truthy sessionId' then filter (\<lambda>r. Some (session_id r) = sessionId') (counting_data d)
                else counting_data d);
          q2 = (if truthy workerId then filter (\<lambda>r. Some (cd_username r) = workerId) q1 else q1)
      in case (if truthy date' then map_option Some (Option.bind date' (date_in e)) else Some None) of
           None \<Rightarrow> Response 400 (StoreError invalid_datetime_format)
         | Some day \<Rightarrow>
             Response 200 (CountingDataList (capped (max_rows e)
               (sort_key (\<lambda>r. - cd_created_at r)
                  (if day = None then q2 else filter (\<lambda>r. Some (cd_date r) = day) q2)))))"

definition counting_data_serve :: "env \<Rightarrow> db \<Rightarrow> CountBody Request \<Rightarrow> db \<times> Response" where
  "counting_data_serve e d req =
     (if req_method req = ''OPTIONS'' then (d, Response 200 Null)
      else if \<not> truthy (authorization req)
        then (d, Response 401 (Error ''No authorization header''))
      else if req_method req = ''POST'' then recordCount e d (json req)
      else if req_method req = ''GET'' then (d, listCountingData e d (searchParams req))
      else (d, Response 405 (Error ''Method not allowed'')))"

section \<open>The worker-performance function\<close>

text \<open>\<open>GET .../today/{workerId}\<close>: the worker's row of the day as dashboard figures.\<close>

definition getToday :: "env \<Rightarrow> db \<Rightarrow> string \<Rightarrow> Response" where
  "getToday e d workerId =
     (case single (filter (\<lambda>u. u_id u = workerId) (users d)) of
        None \<Rightarrow> Response 404 (Error ''User not found'')
      | Some user \<Rightarrow>
         (let performance = performance_today e d (user_id user)
          in Response 200 (StatsJ
               \<lparr>todayBins = or_0 no_of_bins_counted performance,
                todayQuantity = or_0 no_of_qty_counted performance,
                todayTime = or_0 time_taken_minutes performance,
                stats_efficiency = or_0 efficiency performance,
                stats_ranking = or_0 (\<lambda>p. COALESCE (ranking p) 0) performance\<rparr>)))"

text \<open>
  The leaderboard. The query: the rows of the date (and of the warehouse
  when one is given), by descending efficiency, cut at the limit; it fails
  when the store refuses the date text or the limit. Rows of equal
  efficiency keep their table order.
\<close>

definition selected ::
  "env \<Rightarrow> db \<Rightarrow> (string \<times> string) list \<Rightarrow> store_error + WorkerPerformance list" where
  "selected e d params =
     (let warehouse = get params ''warehouse'';
          date' = or_else (get params ''date'') (today e)
      in case date_in e date' of
           None \<Rightarrow> Inl invalid_datetime_format
         | Some day \<Rightarrow>
             (let q = filter (\<lambda>p. wp_date p = day) (worker_performance d)
              in Inr (if truthy warehouse then filter (\<lambda>p. Some (wp_wh_name p) = warehouse) q
                      else q)))"

definition limited :: "env \<Rightarrow> int option \<Rightarrow> 'a list \<Rightarrow> store_error + 'a list" where
  "limited e limit rows =
     (case (case limit of
              None \<Rightarrow> other_limit e limit
            | Some n \<Rightarrow>
                if 0 \<le> n \<and> n < 2 ^ 31 then Inr (Some (nat n)) else other_limit e limit) of
        Inl err \<Rightarrow> Inl err
      | Inr stop \<Rightarrow> Inr (capped (max_rows e) (capped stop rows)))"

text \<open>
  Each row of the answer is given its position as rank, and the rank is
  written to the stored row of the same id, one update after the other,
  none of them looked at.
\<close>

definition rankedData :: "WorkerPerformance list \<Rightarrow> WorkerPerformance list" where
  "rankedData data' = map (\<lambda>(index, item). item\<lparr>ranking := Some (int index + 1)\<rparr>) (enumerate 0 data')"

text \<open>What one update of the loop does to one stored row, when the store takes the rank.\<close>

definition rank_step :: "WorkerPerformance \<Rightarrow> WorkerPerformance \<Rightarrow> WorkerPerformance" where
  "rank_step item r = (if wp_id r = wp_id item then r\<lparr>ranking := ranking item\<rparr> else r)"

definition update_rankings :: "WorkerPerformance list \<Rightarrow> db \<Rightarrow> db" where
  "update_rankings items d =
     fold (\<lambda>item d'. not_checked d'
             (update_worker_performance d' (wp_id item)
                \<lparr>set_no_of_bins_counted = None, set_no_of_qty_counted = None,
                 set_time_taken_minutes = None, set_efficiency = None,
                 set_ranking = ranking item\<rparr>))
       items d"

definition listPerformance :: "env \<Rightarrow> db \<Rightarrow> (string \<times> string) list \<Rightarrow> db \<times> Response" where
  "listPerformance e d params =
     (let limit = parseInt (or_else (get params ''limit'') ''50'')
      in case selected e d params of
           Inl err \<Rightarrow> (d, Response 400 (StoreError err))
         | Inr rows \<Rightarrow>
             (case limited e limit (sort_key (\<lambda>p. - efficiency p) rows) of
                Inl err \<Rightarrow> (d, Response 400 (StoreError err))
              | Inr data' \<Rightarrow>
                  (let ranked = rankedData data'
                   in (update_rankings ranked d, Response 200 (PerformanceList ranked)))))"

text \<open>\<open>POST\<close>: the body is inserted as a new row.\<close>

definition postPerformance :: "env \<Rightarrow> db \<Rightarrow> performanceData \<Rightarrow> db \<times> Response" where
  "postPerformance e d p =
     (case insert_worker_performance e d p of
        Inl err \<Rightarrow> (d, Response 400 (StoreError err))
      | Inr (d', row) \<Rightarrow> (d', Response 200 (PerformanceJ row)))"

definition worker_performance_serve ::
  "env \<Rightarrow> db \<Rightarrow> performanceData Request \<Rightarrow> db \<times> Response" where
  "worker_performance_serve e d req =
     (if req_method req = ''OPTIONS'' then (d, Response 200 Null)
      else if req_method req = ''GET'' then
        (let pathParts = split CHR ''/'' (pathname req)
         in if ''today'' \<in> set pathParts then (d, getToday e d (last pathParts))
            else listPerformance e d (searchParams req))
      else if req_method req = ''POST'' then postPerformance e d (json req)
      else (d, Response 405 (Error ''Method not allowed'')))"

section \<open>Operations without a handler among the sources\<close>

text \<open>
  Modelled from the spec: the team leader's recount, whose handler is not
  among the sources; it writes \<open>qty_recounted_tl\<close> of one counting record
  through the update of the table.
\<close>

definition recount :: "db \<Rightarrow> uuid \<Rightarrow> int \<Rightarrow> store_error + db" where
  "recount d i q =
     update_counting_data d i
       \<lparr>set_qty_counted = None, set_qty_recounted_tl = Some (Some q),
        set_qty_as_per_books = None, set_reason_for_difference = None,
        set_difference = None\<rparr>"

section \<open>Properties of the specification\<close>

text \<open>The stored difference of a record is the one its quantities give.\<close>

definition difference_recomputed :: "CountingData \<Rightarrow> bool" where
  "difference_recomputed r \<longleftrightarrow>
     difference r = COALESCE (qty_recounted_tl r) (qty_counted r) - qty_as_per_books r"

text \<open>
  \<open>y\<close> is \<open>x\<close> brought to two decimals: a whole number of hundredths, at most
  half a hundredth from \<open>x\<close>. When \<open>x\<close> lies halfway between two hundredths
  both are; \<open>round_2dp\<close> is the one the usual rule picks, the upper.
\<close>

definition rounded_2dp :: "rat \<Rightarrow> rat \<Rightarrow> bool" where
  "rounded_2dp x y \<longleftrightarrow> of_int \<lfloor>y * 100\<rfloor> = y * 100 \<and> \<bar>y - x\<bar> \<le> 1 / 200"

definition round_2dp :: "rat \<Rightarrow> rat" where
  "round_2dp x = of_int \<lfloor>x * 100 + 1 / 2\<rfloor> / 100"

section \<open>An example configuration\<close>

text \<open>
  A store that reads a date text as year, month and day in digits with \<open>-\<close>
  between them, refuses a limit that is not a number, is negative or has
  more than 31 bits, and puts at most 1000 rows in an answer.
\<close>

fun decimal_digits :: "string \<Rightarrow> nat \<Rightarrow> nat option" where
  "decimal_digits [] acc = Some acc"
| "decimal_digits (c # cs) acc =
     (case digit_of c of
        None \<Rightarrow> None
      | Some v \<Rightarrow> if v < 10 then decimal_digits cs (10 * acc + v) else None)"

definition iso_date :: "string \<Rightarrow> date option" where
  "iso_date t =
     (case map (\<lambda>w. if w = [] then None else decimal_digits w 0) (split CHR ''-'' t) of
        [Some y, Some m, Some dd] \<Rightarrow>
          if 1 \<le> m \<and> m \<le> 12 \<and> 1 \<le> dd \<and> dd \<le> 31 then Some (Date y m dd) else None
      | _ \<Rightarrow> None)"

definition env_1 :: env where
  "env_1 = \<lparr>today = ''2024-01-15'', current_date = Date 2024 1 15, now = 1000,
             uuid_counting_sessions = ''s2'', uuid_counting_data = ''c1'',
             uuid_worker_performance = ''p1'', uuid_audit_logs = ''a1'',
             date_in = iso_date, other_limit = (\<lambda>limit. Inl limit_refused),
             max_rows = Some 1000\<rparr>"

definition env_2 :: env where
  "env_2 = \<lparr>today = ''2024-01-15'', current_date = Date 2024 1 15, now = 2000,
             uuid_counting_sessions = ''s3'', uuid_counting_data = ''c2'',
             uuid_worker_performance = ''p2'', uuid_audit_logs = ''a2'',
             date_in = iso_date, other_limit = (\<lambda>limit. Inl limit_refused),
             max_rows = Some 1000\<rparr>"

section \<open>Example states\<close>

definition worker_W :: User where
  "worker_W = \<lparr>u_id = ''uW'', user_id = ''W'', u_warehouse_name = Some ''A''\<rparr>"

definition leader_T :: User where
  "leader_T = \<lparr>u_id = ''uT'', user_id = ''T'', u_warehouse_name = Some ''A''\<rparr>"

definition session_1 :: CountingSession where
  "session_1 = \<lparr>cs_id = ''s1'', worker_id = ''uW'', team_leader_id = ''uT'',
                 cs_warehouse_name = ''A'', start_time = 0, end_time = None, status = active\<rparr>"

text \<open>Sessions that have ended: after 25.5 minutes, after one minute, after 736 minutes.\<close>

definition session_ended :: CountingSession where
  "session_ended = \<lparr>cs_id = ''s0'', worker_id = ''uW'', team_leader_id = ''uT'',
                     cs_warehouse_name = ''A'', start_time = 0, end_time = Some 1530000,
                     status = completed\<rparr>"

definition session_minute :: CountingSession where
  "session_minute = \<lparr>cs_id = ''s9'', worker_id = ''uW'', team_leader_id = ''uT'',
                      cs_warehouse_name = ''A'', start_time = 0, end_time = Some 60000,
                      status = completed\<rparr>"

definition session_long :: CountingSession where
  "session_long = \<lparr>cs_id = ''s8'', worker_id = ''uW'', team_leader_id = ''uT'',
                    cs_warehouse_name = ''A'', start_time = 0, end_time = Some 44160000,
                    status = completed\<rparr>"

definition db_0 :: db where
  "db_0 = \<lparr>users = [worker_W, leader_T],
            counting_sessions = [session_ended, session_1, session_minute, session_long],
            counting_data = [], worker_performance = [], audit_logs = []\<rparr>"

definition count_90 :: CountBody where
  "count_90 = \<lparr>sessionId = ''s1'', binNo = ''BIN001'', qtyCountedWorker = 90,
                qtyAsPerBooks = 100, other_members = [(''difference'', 999)]\<rparr>"

definition count_110 :: CountBody where
  "count_110 = \<lparr>sessionId = ''s1'', binNo = ''BIN002'', qtyCountedWorker = 110,
                 qtyAsPerBooks = 150, other_members = []\<rparr>"

definition record_90 :: CountingData where
  "record_90 = \<lparr>cd_id = ''c1'', session_id = ''s1'', cd_wh_name = ''A'',
                 cd_date = Date 2024 1 15, tl_name = ''T'', cd_username = ''W'',
                 bin_no = ''BIN001'', qty_counted = 90, qty_recounted_tl = None,
                 qty_as_per_books = 100, difference = - 10, reason_for_difference = None,
                 cd_created_at = 1000\<rparr>"

definition record_110 :: CountingData where
  "record_110 = \<lparr>cd_id = ''c2'', session_id = ''s1'', cd_wh_name = ''A'',
                  cd_date = Date 2024 1 15, tl_name = ''T'', cd_username = ''W'',
                  bin_no = ''BIN002'', qty_counted = 110, qty_recounted_tl = None,
                  qty_as_per_books = 150, difference = - 40, reason_for_difference = None,
                  cd_created_at = 2000\<rparr>"

definition performance_W :: WorkerPerformance where
  "performance_W = \<lparr>wp_id = ''p1'', wp_wh_name = ''A'', wp_date = Date 2024 1 15,
                     wp_username = ''W'', no_of_bins_counted = 1, no_of_qty_counted = 90,
                     time_taken_minutes = 0, efficiency = 0, ranking = None,
                     wp_created_at = 1000\<rparr>"

definition audit_90 :: AuditLog where
  "audit_90 = \<lparr>al_id = ''a1'', al_user_id = ''uW'', action = ''COUNT_BIN'',
                details = ''Counted bin BIN001: 90 units'', al_created_at = 1000\<rparr>"

definition audit_110 :: AuditLog where
  "audit_110 = \<lparr>al_id = ''a2'', al_user_id = ''uW'', action = ''COUNT_BIN'',
                 details = ''Counted bin BIN002: 110 units'', al_created_at = 2000\<rparr>"

text \<open>The store after the count of 90, and after the count of 110 that follows.\<close>

definition db_1 :: db where
  "db_1 = db_0\<lparr>counting_data := [record_90], worker_performance := [performance_W],
                audit_logs := [audit_90]\<rparr>"

definition db_2 :: db where
  "db_2 = db_0\<lparr>counting_data := [record_90, record_110],
                worker_performance :=
                  [performance_W\<lparr>no_of_bins_counted := 2, no_of_qty_counted := 200\<rparr>],
                audit_logs := [audit_90, audit_110]\<rparr>"

text \<open>
  A second row for worker W and the same day, posted to the worker-performance
  function after the count of 90, and the store it leaves.
\<close>

definition env_3 :: env where
  "env_3 = env_2\<lparr>now := 1500, uuid_worker_performance := ''p9''\<rparr>"

definition posted_W :: performanceData where
  "posted_W = \<lparr>pd_id = None, pd_wh_name = Some ''A'', pd_date = Some ''2024-01-15'',
                pd_username = Some ''W'', pd_no_of_bins_counted = Some 5,
                pd_no_of_qty_counted = Some 50, pd_time_taken_minutes = Some 60,
                pd_efficiency = Some 5, pd_ranking = None\<rparr>"

definition performance_posted :: WorkerPerformance where
  "performance_posted = \<lparr>wp_id = ''p9'', wp_wh_name = ''A'', wp_date = Date 2024 1 15,
                          wp_username = ''W'', no_of_bins_counted = 5, no_of_qty_counted = 50,
                          time_taken_minutes = 60, efficiency = 5, ranking = None,
                          wp_created_at = 1500\<rparr>"

definition db_twice :: db where
  "db_twice = db_1\<lparr>worker_performance := [performance_W, performance_posted]\<rparr>"

definition performance_third :: WorkerPerformance where
  "performance_third = \<lparr>wp_id = ''p2'', wp_wh_name = ''A'', wp_date = Date 2024 1 15,
                         wp_username = ''W'', no_of_bins_counted = 1, no_of_qty_counted = 110,
                         time_taken_minutes = 0, efficiency = 0, ranking = None,
                         wp_created_at = 2000\<rparr>"

text \<open>
  Worker W with 20 bins and a quantity of 90 counted today, and a count sent
  for the session that ended one minute after its start.
\<close>

definition performance_20 :: WorkerPerformance where
  "performance_20 = performance_W\<lparr>no_of_bins_counted := 20\<rparr>"

definition db_20 :: db where
  "db_20 = db_0\<lparr>worker_performance := [performance_20]\<rparr>"

definition count_minute :: CountBody where
  "count_minute = \<lparr>sessionId = ''s9'', binNo = ''BIN003'', qtyCountedWorker = 7,
                    qtyAsPerBooks = 7, other_members = []\<rparr>"

definition record_minute :: CountingData where
  "record_minute = \<lparr>cd_id = ''c1'', session_id = ''s9'', cd_wh_name = ''A'',
                     cd_date = Date 2024 1 15, tl_name = ''T'', cd_username = ''W'',
                     bin_no = ''BIN003'', qty_counted = 7, qty_recounted_tl = None,
                     qty_as_per_books = 7, difference = 0, reason_for_difference = None,
                     cd_created_at = 1000\<rparr>"

text \<open>A count sent for the session that has ended, 25.5 minutes after its start.\<close>

definition count_ended :: CountBody where
  "count_ended = \<lparr>sessionId = ''s0'', binNo = ''BIN003'', qtyCountedWorker = 7,
                   qtyAsPerBooks = 7, other_members = []\<rparr>"

definition record_7 :: CountingData where
  "record_7 = \<lparr>cd_id = ''c1'', session_id = ''s0'', cd_wh_name = ''A'',
                cd_date = Date 2024 1 15, tl_name = ''T'', cd_username = ''W'',
                bin_no = ''BIN003'', qty_counted = 7, qty_recounted_tl = None,
                qty_as_per_books = 7, difference = 0, reason_for_difference = None,
                cd_created_at = 1000\<rparr>"

text \<open>Worker W with 500 bins counted today and no minutes stored.\<close>

definition performance_500 :: WorkerPerformance where
  "performance_500 = performance_W\<lparr>no_of_bins_counted := 500, no_of_qty_counted := 5000\<rparr>"

definition db_500 :: db where
  "db_500 = db_0\<lparr>worker_performance := [performance_500]\<rparr>"

text \<open>
  Worker W with 22 bins counted today, and a count sent for the session that
  ended 736 minutes after its start.
\<close>

definition performance_22 :: WorkerPerformance where
  "performance_22 = performance_W\<lparr>no_of_bins_counted := 22, no_of_qty_counted := 220\<rparr>"

definition db_22 :: db where
  "db_22 = db_0\<lparr>worker_performance := [performance_22]\<rparr>"

definition count_long :: CountBody where
  "count_long = \<lparr>sessionId = ''s8'', binNo = ''BIN023'', qtyCountedWorker = 10,
                  qtyAsPerBooks = 10, other_members = []\<rparr>"

definition performance_23 :: WorkerPerformance where
  "performance_23 = performance_W\<lparr>no_of_bins_counted := 23, no_of_qty_counted := 230,
                                   time_taken_minutes := 736, efficiency := 187 / 100\<rparr>"

text \<open>
  Three workers of warehouse A on one day, of efficiency 5, 3 and 4; a worker
  of warehouse B on that day and a worker of warehouse A on the day before,
  both of higher efficiency.
\<close>

definition workerA :: WorkerPerformance where
  "workerA = \<lparr>wp_id = ''pA'', wp_wh_name = ''A'', wp_date = Date 2024 1 15,
               wp_username = ''workerA'', no_of_bins_counted = 5, no_of_qty_counted = 50,
               time_taken_minutes = 60, efficiency = 5, ranking = None, wp_created_at = 1\<rparr>"

definition workerB :: WorkerPerformance where
  "workerB = \<lparr>wp_id = ''pB'', wp_wh_name = ''A'', wp_date = Date 2024 1 15,
               wp_username = ''workerB'', no_of_bins_counted = 3, no_of_qty_counted = 30,
               time_taken_minutes = 60, efficiency = 3, ranking = None, wp_created_at = 2\<rparr>"

definition workerC :: WorkerPerformance where
  "workerC = \<lparr>wp_id = ''pC'', wp_wh_name = ''A'', wp_date = Date 2024 1 15,
               wp_username = ''workerC'', no_of_bins_counted = 4, no_of_qty_counted = 40,
               time_taken_minutes = 60, efficiency = 4, ranking = None, wp_created_at = 3\<rparr>"

definition workerD :: WorkerPerformance where
  "workerD = \<lparr>wp_id = ''pD'', wp_wh_name = ''B'', wp_date = Date 2024 1 15,
               wp_username = ''workerD'', no_of_bins_counted = 9, no_of_qty_counted = 90,
               time_taken_minutes = 60, efficiency = 9, ranking = None, wp_created_at = 4\<rparr>"

definition workerE :: WorkerPerformance where
  "workerE = \<lparr>wp_id = ''pE'', wp_wh_name = ''A'', wp_date = Date 2024 1 14,
               wp_username = ''workerE'', no_of_bins_counted = 8, no_of_qty_counted = 80,
               time_taken_minutes = 60, efficiency = 8, ranking = Some 1, wp_created_at = 0\<rparr>"

definition db_leaderboard :: db where
  "db_leaderboard =
     db_0\<lparr>worker_performance := [workerA, workerB, workerC, workerD, workerE]\<rparr>"

definition params_leaderboard :: "(string \<times> string) list" where
  "params_leaderboard = [(''date'', ''2024-01-15''), (''warehouse'', ''A''), (''limit'', ''2'')]"

text \<open>A row posted for worker A and the day that worker already has a row for.\<close>

definition posted_A :: performanceData where
  "posted_A = \<lparr>pd_id = None, pd_wh_name = Some ''A'', pd_date = Some ''2024-01-15'',
                pd_username = Some ''workerA'', pd_no_of_bins_counted = Some 9,
                pd_no_of_qty_counted = Some 90, pd_time_taken_minutes = Some 60,
                pd_efficiency = Some 9, pd_ranking = None\<rparr>"

definition inserted_A :: WorkerPerformance where
  "inserted_A = \<lparr>wp_id = ''p1'', wp_wh_name = ''A'', wp_date = Date 2024 1 15,
                  wp_username = ''workerA'', no_of_bins_counted = 9, no_of_qty_counted = 90,
                  time_taken_minutes = 60, efficiency = 9, ranking = None,
                  wp_created_at = 1000\<rparr>"

text \<open>
  Today's row of worker W among a row of the day before and the row of
  another worker.
\<close>

definition performance_before :: WorkerPerformance where
  "performance_before = \<lparr>wp_id = ''py'', wp_wh_name = ''A'', wp_date = Date 2024 1 14,
                          wp_username = ''W'', no_of_bins_counted = 8, no_of_qty_counted = 80,
                          time_taken_minutes = 30, efficiency = 16, ranking = Some 1,
                          wp_created_at = 0\<rparr>"

definition performance_now :: WorkerPerformance where
  "performance_now = \<lparr>wp_id = ''p1'', wp_wh_name = ''A'', wp_date = Date 2024 1 15,
                       wp_username = ''W'', no_of_bins_counted = 2, no_of_qty_counted = 200,
                       time_taken_minutes = 26, efficiency = 462 / 100, ranking = None,
                       wp_created_at = 1000\<rparr>"

definition db_dashboard :: db where
  "db_dashboard = db_0\<lparr>worker_performance := [performance_before, workerA, performance_now]\<rparr>"

section \<open>Reads of the store\<close>

lemma single_Nil [simp]: "single [] = None"
  by (simp add: single_def)

lemma single_one [simp]: "single [x] = Some x"
  by (simp add: single_def)

lemma single_two [simp]: "single (x # y # zs) = None"
  by (simp add: single_def)

lemma session_by_id_absent:
  assumes "sid \<notin> cs_id ` set (counting_sessions d)"
  shows "session_by_id d sid = None"
proof -
  from assms have "filter (\<lambda>s. cs_id s = sid) (counting_sessions d) = []"
    by (auto simp: filter_empty_conv)
  then show ?thesis by (simp add: session_by_id_def)
qed

lemma insert_counting_data_tables:
  "insert_counting_data e d sid wh tln usr bin qty books = Inr (d1, cd) \<Longrightarrow>
     worker_performance d1 = worker_performance d \<and> users d1 = users d \<and>
     counting_sessions d1 = counting_sessions d \<and> audit_logs d1 = audit_logs d \<and>
     counting_data d1 = counting_data d @ [cd]"
  by (auto simp: insert_counting_data_def Let_def split: if_splits)

lemma not_checked_audit:
  "worker_performance (not_checked d (insert_audit_logs e d uid act det)) = worker_performance d"
  "counting_data (not_checked d (insert_audit_logs e d uid act det)) = counting_data d"
  "counting_sessions (not_checked d (insert_audit_logs e d uid act det)) = counting_sessions d"
  "users (not_checked d (insert_audit_logs e d uid act det)) = users d"
  by (simp_all add: not_checked_def insert_audit_logs_def Let_def)

text \<open>A write to the performance table leaves the other tables as they were.\<close>

lemma update_worker_performance_tables:
  "counting_data (not_checked d (update_worker_performance d i p)) = counting_data d"
  "counting_sessions (not_checked d (update_worker_performance d i p)) = counting_sessions d"
  "users (not_checked d (update_worker_performance d i p)) = users d"
  "audit_logs (not_checked d (update_worker_performance d i p)) = audit_logs d"
  by (simp_all add: not_checked_def update_worker_performance_def split: option.splits)

lemma insert_worker_performance_tables:
  "counting_data (not_checked d (map_sum id fst (insert_worker_performance e d p))) = counting_data d"
  "counting_sessions (not_checked d (map_sum id fst (insert_worker_performance e d p))) =
     counting_sessions d"
  "users (not_checked d (map_sum id fst (insert_worker_performance e d p))) = users d"
  "audit_logs (not_checked d (map_sum id fst (insert_worker_performance e d p))) = audit_logs d"
  by (simp_all add: not_checked_def insert_worker_performance_def Let_def split: option.splits)

lemma update_performance_counting_data:
  "counting_data (update_performance e d session worker q) = counting_data d"
  by (simp add: update_performance_def Let_def update_worker_performance_tables
        insert_worker_performance_tables split: option.splits)

text \<open>What a count that is answered with 200 has done.\<close>

lemma recordCount_ok:
  assumes "recordCount e d b = (d', Response 200 body')"
  obtains s tln w d1 cd where
    "session_by_id d (sessionId b) = Some s"
    "joined_user d (team_leader_id s) = Some tln"
    "joined_user d (worker_id s) = Some w"
    "insert_counting_data e d (sessionId b) (cs_warehouse_name s) (user_id tln)
       (user_id w) (binNo b) (qtyCountedWorker b) (qtyAsPerBooks b) = Inr (d1, cd)"
    "body' = CountingDataJ cd"
    "worker_performance d' =
       worker_performance (update_performance e d1 s w (qtyCountedWorker b))"
    "counting_data d' = counting_data d1"
  using assms
  by (auto simp: recordCount_def Let_def not_checked_audit update_performance_counting_data
        split: option.splits sum.splits)

section \<open>Evaluation on the example states\<close>

lemma floor_divide_numeral:
  "\<lfloor>numeral a / numeral b :: rat\<rfloor> = numeral a div numeral b"
  using floor_divide_of_int_eq [of "numeral a" "numeral b", where ?'a = rat] by simp

lemma significand_numeral:
  "significand (numeral n) q ulp =
     (if q < 2 ^ 52 then significand (pred_numeral n) (q * 2) (ulp / 2)
      else if 2 ^ 53 \<le> q then significand (pred_numeral n) (q / 2) (ulp * 2)
      else (q, ulp))"
  by (simp add: numeral_eq_Suc)

lemmas double_eval = double_def significand_numeral round_half_even_def Let_def
  floor_divide_numeral Math_round_def

lemma iso_date_15: "iso_date ''2024-01-15'' = Some (Date 2024 1 15)"
  by (simp add: iso_date_def digit_of_def Let_def)

lemma iso_date_short: "iso_date ''2024-1-15'' = Some (Date 2024 1 15)"
  by (simp add: iso_date_def digit_of_def Let_def)

lemma iso_date_garbage: "iso_date ''garbage'' = None"
  by (simp add: iso_date_def digit_of_def Let_def)

lemma floor_half: "\<lfloor>1 / 2 :: rat\<rfloor> = 0"
  by (rule floor_unique) simp_all

lemma numeric_5_2_0: "numeric_5_2 0 = Some 0"
  by (simp add: numeric_5_2_def round_away_def floor_half)

lemma numeric_5_2_5: "numeric_5_2 5 = Some 5"
  by (simp add: numeric_5_2_def round_away_def floor_divide_numeral)

lemma numeric_5_2_9: "numeric_5_2 9 = Some 9"
  by (simp add: numeric_5_2_def round_away_def floor_divide_numeral)

lemma minutes_ended: "Math_round (double (double 1530000 / 60000)) = 26"
  by (simp add: double_eval)

lemma minutes_minute: "Math_round (double (double 60000 / 60000)) = 1"
  by (simp add: double_eval)

lemma minutes_long: "Math_round (double (double 44160000 / 60000)) = 736"
  by (simp add: double_eval)

lemma efficiency_21_1: "numeric_5_2 (efficiency_of 21 1) = None"
  by (simp add: efficiency_of_def double_eval numeric_5_2_def round_away_def)

lemma efficiency_501_26: "numeric_5_2 (efficiency_of 501 26) = None"
  by (simp add: efficiency_of_def double_eval numeric_5_2_def round_away_def)

lemma efficiency_23_736: "numeric_5_2 (efficiency_of 23 736) = Some (187 / 100)"
  by (simp add: efficiency_of_def double_eval numeric_5_2_def round_away_def)

lemma efficiency_no_minutes: "efficiency_of n 0 = 0"
  by (simp add: efficiency_of_def)

lemmas example_defs = db_0_def db_1_def db_2_def env_1_def env_2_def
  count_90_def count_110_def count_ended_def record_90_def record_110_def record_7_def
  performance_W_def audit_90_def audit_110_def
  worker_W_def leader_T_def session_1_def session_ended_def session_minute_def
  session_long_def env_3_def posted_W_def performance_posted_def db_twice_def
  performance_third_def performance_20_def db_20_def count_minute_def record_minute_def
  performance_500_def db_500_def performance_22_def db_22_def count_long_def
  performance_23_def

lemmas recordCount_defs = recordCount_def session_by_id_def joined_user_def
  insert_counting_data_def stored_def COALESCE_def update_performance_def performance_today_def
  or_0_def timeTaken_def update_worker_performance_def assigned_def int4_def int4_or_absent_def
  insert_worker_performance_def not_checked_def insert_audit_logs_def String_of_int_def
  digits.simps Let_def iso_date_15 numeric_5_2_0 numeric_5_2_5 numeric_5_2_9
  efficiency_no_minutes minutes_ended minutes_minute minutes_long

lemma count_90_on_db_0:
  "recordCount env_1 db_0 count_90 = (db_1, Response 200 (CountingDataJ record_90))"
  by (simp add: recordCount_defs example_defs)

lemma count_110_on_db_1:
  "recordCount env_2 db_1 count_110 = (db_2, Response 200 (CountingDataJ record_110))"
  by (simp add: recordCount_defs example_defs)

section \<open>A count for a session that does not exist\<close>

text \<open>
  C4. A count whose sessionId is the id of no session is answered with 404,
  ``Session not found'', and the store is left as it was: no counting record,
  no performance row and no audit entry is written. This holds of the POST
  branch and so of every POST request that passes the authorization check.
\<close>

theorem recordCount_unresolved_session:
  assumes "sessionId b \<notin> cs_id ` set (counting_sessions d)"
  shows "recordCount e d b = (d, Response 404 (Error ''Session not found'')) \<and>
         (\<forall>req. req_method req = ''POST'' \<and> truthy (authorization req) \<and> json req = b \<longrightarrow>
            counting_data_serve e d req = (d, Response 404 (Error ''Session not found'')))"
proof -
  have "recordCount e d b = (d, Response 404 (Error ''Session not found''))"
    using session_by_id_absent [OF assms] by (simp add: recordCount_def)
  then show ?thesis by (simp add: counting_data_serve_def)
qed

theorem recordCount_unresolved_session_witness:
  "''zz'' \<notin> cs_id ` set (counting_sessions db_0) \<and>
   recordCount env_1 db_0 (count_90\<lparr>sessionId := ''zz''\<rparr>) =
     (db_0, Response 404 (Error ''Session not found'')) \<and>
   counting_data_serve env_1 db_0
     \<lparr>req_method = ''POST'', authorization = Some ''Bearer k'', pathname = ''/counting-data'',
      searchParams = [], json = count_90\<lparr>sessionId := ''zz''\<rparr>\<rparr> =
     (db_0, Response 404 (Error ''Session not found''))"
proof -
  have h: "sessionId (count_90\<lparr>sessionId := ''zz''\<rparr>) \<notin> cs_id ` set (counting_sessions db_0)"
    by (simp add: db_0_def session_1_def session_ended_def session_minute_def session_long_def)
  from recordCount_unresolved_session [OF h, of env_1] h show ?thesis
    by (simp add: truthy_def)
qed

section \<open>The authorization check\<close>

text \<open>
  C10. A POST or GET request to the counting-data function that carries no
  Authorization header is answered with 401, ``No authorization header'', and
  the store is left as it was. The worker-performance function never reads
  the header: it answers a request the same way whatever the header is.
\<close>

theorem counting_data_requires_authorization:
  "((req_method req = ''POST'' \<or> req_method req = ''GET'') \<and> authorization req = None \<longrightarrow>
      counting_data_serve e d req = (d, Response 401 (Error ''No authorization header''))) \<and>
   worker_performance_serve e d (req'\<lparr>authorization := a\<rparr>) =
     worker_performance_serve e d (req'\<lparr>authorization := a'\<rparr>)"
  by (auto simp: counting_data_serve_def truthy_def worker_performance_serve_def Let_def)

theorem counting_data_requires_authorization_witness:
  "counting_data_serve env_1 db_leaderboard
     \<lparr>req_method = ''POST'', authorization = None, pathname = ''/counting-data'',
      searchParams = [], json = count_90\<rparr> =
     (db_leaderboard, Response 401 (Error ''No authorization header'')) \<and>
   worker_performance_serve env_1 db_leaderboard
     \<lparr>req_method = ''GET'', authorization = None, pathname = ''/worker-performance'',
      searchParams = params_leaderboard, json = posted_A\<rparr> =
   worker_performance_serve env_1 db_leaderboard
     \<lparr>req_method = ''GET'', authorization = Some ''Bearer k'', pathname = ''/worker-performance'',
      searchParams = params_leaderboard, json = posted_A\<rparr>"
  using counting_data_requires_authorization
    [where req = "\<lparr>req_method = ''POST'', authorization = None, pathname = ''/counting-data'',
          searchParams = [], json = count_90\<rparr>"
       and e = env_1 and d = db_leaderboard
       and req' = "\<lparr>req_method = ''GET'', authorization = None,
          pathname = ''/worker-performance'', searchParams = params_leaderboard,
          json = posted_A\<rparr>"
       and a = None and a' = "Some ''Bearer k''"]
  by simp

section \<open>The difference of a counting record\<close>

lemma stored_recomputed: "difference_recomputed (stored r)"
  by (simp add: difference_recomputed_def stored_def)

lemma patched_recomputed: "difference_recomputed (patched p r)"
  unfolding patched_def by (rule stored_recomputed)

lemma insert_counting_data_row:
  assumes "insert_counting_data e d sid wh tln usr bin qty books = Inr (d1, cd)"
  shows "difference_recomputed cd \<and> qty_counted cd = qty \<and> qty_recounted_tl cd = None \<and>
         qty_as_per_books cd = books \<and> difference cd = qty - books"
  using assms
  by (auto simp: insert_counting_data_def Let_def stored_def difference_recomputed_def
        COALESCE_def split: if_splits)

lemma recordCount_counting_data:
  "counting_data (fst (recordCount e d b)) = counting_data d \<or>
   (\<exists>d' cd. recordCount e d b = (d', Response 200 (CountingDataJ cd)) \<and>
      counting_data d' = counting_data d @ [cd] \<and>
      difference_recomputed cd \<and> difference cd = qtyCountedWorker b - qtyAsPerBooks b)"
proof (cases "\<exists>d' body'. recordCount e d b = (d', Response 200 body')")
  case True
  then obtain d' body' where ok: "recordCount e d b = (d', Response 200 body')" by blast
  then obtain s tln w d1 cd where
    "session_by_id d (sessionId b) = Some s"
    and "joined_user d (team_leader_id s) = Some tln"
    and "joined_user d (worker_id s) = Some w"
    and ins: "insert_counting_data e d (sessionId b) (cs_warehouse_name s) (user_id tln)
       (user_id w) (binNo b) (qtyCountedWorker b) (qtyAsPerBooks b) = Inr (d1, cd)"
    and body: "body' = CountingDataJ cd"
    and cd: "counting_data d' = counting_data d1"
    by (rule recordCount_ok)
  from insert_counting_data_tables [OF ins] cd
  have "counting_data d' = counting_data d @ [cd]" by simp
  with ok body insert_counting_data_row [OF ins] show ?thesis by blast
next
  case False
  then have "fst (recordCount e d b) = d"
    by (auto simp: recordCount_def Let_def split: option.splits sum.splits)
  then show ?thesis by simp
qed

text \<open>
  C1. The record a count creates is stored with
  \<open>difference = COALESCE(qty_recounted_tl, qty_counted) - qty_as_per_books\<close>, here
  the counted quantity minus the book quantity, whatever else the body of the
  request holds. When every stored record has its difference recomputed in
  this way, so has every record after a count, after any update of the table
  that the store accepts, and after a recount, which makes the difference of
  the record the recounted quantity minus the book quantity; an update that
  names a value for \<open>difference\<close> is refused.
\<close>

theorem difference_always_recomputed:
  assumes inv: "list_all difference_recomputed (counting_data d)"
  shows "list_all difference_recomputed (counting_data (fst (recordCount e d b))) \<and>
         (\<forall>d' r. recordCount e d b = (d', Response 200 (CountingDataJ r)) \<longrightarrow>
            r \<in> set (counting_data d') \<and> difference_recomputed r \<and>
            difference r = qtyCountedWorker b - qtyAsPerBooks b) \<and>
         recordCount e d (b\<lparr>other_members := m\<rparr>) = recordCount e d b \<and>
         (\<forall>d'. update_counting_data d i p = Inr d' \<longrightarrow>
            list_all difference_recomputed (counting_data d')) \<and>
         (set_difference p \<noteq> None \<longrightarrow>
            update_counting_data d i p = Inl (generated_always ''difference'')) \<and>
         (\<exists>d'. recount d i q = Inr d' \<and> list_all difference_recomputed (counting_data d') \<and>
            (\<forall>r \<in> set (counting_data d'). cd_id r = i \<longrightarrow>
               difference r = q - qty_as_per_books r))"
proof -
  have a: "list_all difference_recomputed (counting_data (fst (recordCount e d b)))"
    using recordCount_counting_data [of e d b] inv by auto
  have b: "\<forall>d' r. recordCount e d b = (d', Response 200 (CountingDataJ r)) \<longrightarrow>
            r \<in> set (counting_data d') \<and> difference_recomputed r \<and>
            difference r = qtyCountedWorker b - qtyAsPerBooks b"
  proof (intro allI impI)
    fix d' r
    assume ok: "recordCount e d b = (d', Response 200 (CountingDataJ r))"
    then obtain s tln w d1 cd where
      "session_by_id d (sessionId b) = Some s"
      and "joined_user d (team_leader_id s) = Some tln"
      and "joined_user d (worker_id s) = Some w"
      and ins: "insert_counting_data e d (sessionId b) (cs_warehouse_name s) (user_id tln)
         (user_id w) (binNo b) (qtyCountedWorker b) (qtyAsPerBooks b) = Inr (d1, cd)"
      and body: "CountingDataJ r = CountingDataJ cd"
      and cd: "counting_data d' = counting_data d1"
      by (rule recordCount_ok)
    from body have "r = cd" by simp
    with insert_counting_data_tables [OF ins] insert_counting_data_row [OF ins] cd
    show "r \<in> set (counting_data d') \<and> difference_recomputed r \<and>
            difference r = qtyCountedWorker b - qtyAsPerBooks b"
      by simp
  qed
  have c: "recordCount e d (b\<lparr>other_members := m\<rparr>) = recordCount e d b"
    by (simp add: recordCount_def Let_def split: option.splits sum.splits prod.splits)
  have u: "\<forall>d'. update_counting_data d i p = Inr d' \<longrightarrow>
            list_all difference_recomputed (counting_data d')"
    using inv
    by (auto simp: update_counting_data_def list_all_iff patched_recomputed split: if_splits)
  have g: "set_difference p \<noteq> None \<longrightarrow>
            update_counting_data d i p = Inl (generated_always ''difference'')"
    by (simp add: update_counting_data_def)
  define P where "P = \<lparr>set_qty_counted = None, set_qty_recounted_tl = Some (Some q),
        set_qty_as_per_books = None, set_reason_for_difference = None,
        set_difference = None\<rparr>"
  define d' where "d' = d\<lparr>counting_data :=
                  map (\<lambda>r. if cd_id r = i then patched P r else r) (counting_data d)\<rparr>"
  have r1: "recount d i q = Inr d'"
    by (simp add: recount_def update_counting_data_def P_def d'_def)
  have r2: "list_all difference_recomputed (counting_data d')"
    using inv by (auto simp: d'_def list_all_iff patched_recomputed)
  have pid: "\<And>x. cd_id (patched P x) = cd_id x"
    by (simp add: patched_def stored_def)
  have pdiff: "\<And>x. difference (patched P x) = q - qty_as_per_books (patched P x)"
    by (simp add: patched_def stored_def COALESCE_def P_def)
  have r3: "\<forall>r \<in> set (counting_data d'). cd_id r = i \<longrightarrow>
               difference r = q - qty_as_per_books r"
  proof (intro ballI impI)
    fix r assume "r \<in> set (counting_data d')" and i: "cd_id r = i"
    then obtain x where "x \<in> set (counting_data d)"
      and rx: "r = (if cd_id x = i then patched P x else x)"
      by (auto simp: d'_def)
    show "difference r = q - qty_as_per_books r"
    proof (cases "cd_id x = i")
      case True
      with rx show ?thesis by (simp add: pdiff)
    next
      case False
      with rx i show ?thesis by simp
    qed
  qed
  from r1 r2 r3
  have r: "\<exists>d'. recount d i q = Inr d' \<and> list_all difference_recomputed (counting_data d') \<and>
            (\<forall>r \<in> set (counting_data d'). cd_id r = i \<longrightarrow>
               difference r = q - qty_as_per_books r)"
    by (intro exI [of _ d'] conjI)
  show ?thesis
    by (rule conjI [OF a conjI [OF b conjI [OF c conjI [OF u conjI [OF g r]]]]])
qed

theorem difference_always_recomputed_witness:
  "list_all difference_recomputed (counting_data db_1) \<and>
   recordCount env_2 db_1 count_110 = (db_2, Response 200 (CountingDataJ record_110)) \<and>
   record_110 \<in> set (counting_data db_2) \<and> difference record_110 = 110 - 150 \<and>
   list_all difference_recomputed (counting_data db_2) \<and>
   recordCount env_1 db_0 (count_90\<lparr>other_members := []\<rparr>) = recordCount env_1 db_0 count_90 \<and>
   recount db_1 ''c1'' 95 =
     Inr (db_1\<lparr>counting_data := [record_90\<lparr>qty_recounted_tl := Some 95, difference := - 5\<rparr>]\<rparr>)"
proof -
  have inv: "list_all difference_recomputed (counting_data db_1)"
    by (simp add: difference_recomputed_def COALESCE_def example_defs)
  have rc: "recount db_1 ''c1'' 95 =
     Inr (db_1\<lparr>counting_data := [record_90\<lparr>qty_recounted_tl := Some 95, difference := - 5\<rparr>]\<rparr>)"
    by (simp add: recount_def update_counting_data_def patched_def stored_def COALESCE_def
          example_defs)
  from difference_always_recomputed [OF inv, of env_2 count_110 "[]" "''c1''"
      "\<lparr>set_qty_counted = None, set_qty_recounted_tl = None, set_qty_as_per_books = None,
        set_reason_for_difference = None, set_difference = None\<rparr>" 95]
  have "list_all difference_recomputed (counting_data (fst (recordCount env_2 db_1 count_110)))"
    and "\<forall>d' r. recordCount env_2 db_1 count_110 = (d', Response 200 (CountingDataJ r)) \<longrightarrow>
            r \<in> set (counting_data d') \<and> difference_recomputed r \<and>
            difference r = qtyCountedWorker count_110 - qtyAsPerBooks count_110"
    by blast+
  with count_110_on_db_1
  have "list_all difference_recomputed (counting_data db_2)"
    and "record_110 \<in> set (counting_data db_2)"
    and "difference record_110 = 110 - 150"
    by (auto simp: count_110_def)
  moreover have "recordCount env_1 db_0 (count_90\<lparr>other_members := []\<rparr>) =
                   recordCount env_1 db_0 count_90"
    using difference_always_recomputed [of db_0 env_1 count_90 "[]"]
    by (simp add: db_0_def)
  ultimately show ?thesis using inv rc count_110_on_db_1 by simp
qed

section \<open>The totals of the day\<close>

text \<open>
  C5. Two counts that are answered with 200 and increment no row. Worker W
  has 20 bins and a quantity of 90 today, and the count is for the session
  that ended after one minute: the handler computes 21 bins, 1 minute and an
  efficiency of 1260 bins per hour, the store refuses the update because
  1260 does not fit \<open>decimal(5,2)\<close>, the handler does not look at the result,
  and the row stays at 20 bins and a quantity of 90. Worker W has two rows
  for today, the second one posted to the worker-performance function: the
  read with \<open>.single()\<close> gives the handler nothing, and it inserts a third row
  with 1 bin and the counted quantity instead of incrementing a row.
\<close>

theorem recordCount_totals_lost:
  "snd (recordCount env_1 db_20 count_minute) = Response 200 (CountingDataJ record_minute) \<and>
   counting_data (fst (recordCount env_1 db_20 count_minute)) = [record_minute] \<and>
   worker_performance (fst (recordCount env_1 db_20 count_minute)) = [performance_20] \<and>
   no_of_bins_counted performance_20 = 20 \<and> no_of_qty_counted performance_20 = 90 \<and>
   postPerformance env_3 db_1 posted_W = (db_twice, Response 200 (PerformanceJ performance_posted)) \<and>
   snd (recordCount env_2 db_twice count_110) = Response 200 (CountingDataJ record_110) \<and>
   worker_performance (fst (recordCount env_2 db_twice count_110)) =
     [performance_W, performance_posted, performance_third] \<and>
   no_of_bins_counted performance_third = 1 \<and> no_of_qty_counted performance_third = 110"
proof -
  have a: "recordCount env_1 db_20 count_minute =
             (db_20\<lparr>counting_data := [record_minute],
                    audit_logs := [\<lparr>al_id = ''a1'', al_user_id = ''uW'', action = ''COUNT_BIN'',
                      details = ''Counted bin BIN003: 7 units'', al_created_at = 1000\<rparr>]\<rparr>,
              Response 200 (CountingDataJ record_minute))"
    by (simp add: recordCount_defs example_defs efficiency_21_1)
  have b: "postPerformance env_3 db_1 posted_W =
             (db_twice, Response 200 (PerformanceJ performance_posted))"
    by (simp add: postPerformance_def recordCount_defs example_defs)
  have c: "recordCount env_2 db_twice count_110 =
             (db_twice\<lparr>counting_data := [record_90, record_110],
                       worker_performance := [performance_W, performance_posted, performance_third],
                       audit_logs := [audit_90, audit_110]\<rparr>,
              Response 200 (CountingDataJ record_110))"
    by (simp add: recordCount_defs example_defs)
  show ?thesis
    by (simp add: a b c) (simp add: example_defs)
qed

section \<open>The minutes of the day\<close>

text \<open>
  C7. A count for a session with an end whose recomputed minutes are not
  stored. Worker W has 500 bins today and 0 minutes stored, and the count is
  for the session that ended 25.5 minutes after its start: the handler
  recomputes 26 minutes and an efficiency of 1156.15 bins per hour, the store
  refuses the update because that does not fit \<open>decimal(5,2)\<close>, the handler
  does not look at the result, the count is answered with 200 and the row
  keeps its 0 minutes.
\<close>

theorem recordCount_minutes_lost:
  "end_time session_ended = Some 1530000 \<and>
   timeTaken session_ended (Some performance_500) = 26 \<and>
   snd (recordCount env_1 db_500 count_ended) = Response 200 (CountingDataJ record_7) \<and>
   worker_performance (fst (recordCount env_1 db_500 count_ended)) = [performance_500] \<and>
   time_taken_minutes performance_500 = 0"
proof -
  have a: "recordCount env_1 db_500 count_ended =
             (db_500\<lparr>counting_data := [record_7],
                     audit_logs := [\<lparr>al_id = ''a1'', al_user_id = ''uW'', action = ''COUNT_BIN'',
                       details = ''Counted bin BIN003: 7 units'', al_created_at = 1000\<rparr>]\<rparr>,
              Response 200 (CountingDataJ record_7))"
    by (simp add: recordCount_defs example_defs efficiency_501_26)
  show ?thesis
    by (simp add: a) (simp add: timeTaken_def minutes_ended example_defs)
qed

section \<open>The accuracy of the double arithmetic\<close>

text \<open>
  Scaling keeps the value, and brings a value that is not too small or too
  large to 53 bits; so a double is within one part in \<open>2 ^ 53\<close> of the exact
  result it stands for.
\<close>

lemma significand_value:
  "significand k q ulp = (q', ulp') \<Longrightarrow> q' * ulp' = q * ulp"
  by (induction k q ulp rule: significand.induct) (auto split: if_splits)

lemma significand_ulp_pos:
  "significand k q ulp = (q', ulp') \<Longrightarrow> 0 < ulp \<Longrightarrow> 0 < ulp'"
  by (induction k q ulp rule: significand.induct) (auto split: if_splits)

lemma significand_range:
  "significand k q ulp = (q', ulp') \<Longrightarrow> 2 ^ 52 \<le> q * 2 ^ k \<Longrightarrow> q < 2 ^ 53 * 2 ^ k \<Longrightarrow>
     2 ^ 52 \<le> q' \<and> q' < 2 ^ 53"
proof (induction k q ulp rule: significand.induct)
  case (1 q ulp)
  then show ?case by simp
next
  case (2 fuel q ulp)
  show ?case
  proof (cases "q < 2 ^ 52")
    case True
    have "q * 2 < 2 ^ 53 * 1" using True by simp
    also have "\<dots> \<le> 2 ^ 53 * 2 ^ fuel" by (intro mult_left_mono) simp_all
    finally have "q * 2 < 2 ^ 53 * 2 ^ fuel" .
    with 2 True show ?thesis by (simp add: mult.assoc)
  next
    case False
    show ?thesis
    proof (cases "2 ^ 53 \<le> q")
      case True
      have "2 ^ 52 * 1 \<le> q / 2 * 1" using True by simp
      also have "\<dots> \<le> q / 2 * 2 ^ fuel" using True by (intro mult_left_mono) simp_all
      finally have "2 ^ 52 \<le> q / 2 * 2 ^ fuel" by simp
      with 2 True False show ?thesis by simp
    next
      case no: False
      with 2 False show ?thesis by simp
    qed
  qed
qed

lemma round_half_even_near: "\<bar>of_int (round_half_even q) - q\<bar> \<le> 1 / 2"
proof -
  have "of_int \<lfloor>q\<rfloor> \<le> q" "q < of_int \<lfloor>q\<rfloor> + 1" by linarith+
  then show ?thesis by (auto simp: round_half_even_def Let_def)
qed

lemma double_near:
  assumes lo: "1 / 2 ^ 64 \<le> \<bar>x\<bar>" and hi: "\<bar>x\<bar> \<le> 2 ^ 64"
  shows "\<bar>double x - x\<bar> \<le> \<bar>x\<bar> / 2 ^ 53"
proof -
  from lo have nz: "x \<noteq> 0" by auto
  obtain q ulp where s: "significand 1074 \<bar>x\<bar> 1 = (q, ulp)" by (cases "significand 1074 \<bar>x\<bar> 1")
  have val: "q * ulp = \<bar>x\<bar>" using significand_value [OF s] by simp
  have pos: "0 < ulp" using significand_ulp_pos [OF s] by simp
  have "(2::rat) ^ 52 \<le> 1 / 2 ^ 64 * 2 ^ 1074" by simp
  also have "\<dots> \<le> \<bar>x\<bar> * 2 ^ 1074" using lo by (intro mult_right_mono) simp_all
  finally have a: "2 ^ 52 \<le> \<bar>x\<bar> * 2 ^ 1074" .
  have "\<bar>x\<bar> \<le> 2 ^ 64" by (rule hi)
  also have "(2::rat) ^ 64 < 2 ^ 53 * 2 ^ 1074" by simp
  finally have b: "\<bar>x\<bar> < 2 ^ 53 * 2 ^ 1074" .
  from significand_range [OF s a b] have q: "2 ^ 52 \<le> q" by simp
  then have qpos: "0 < q" by (rule less_le_trans [rotated]) simp
  have d: "double x = sgn x * of_int (round_half_even q) * ulp"
    using nz s by (simp add: double_def)
  have "x = sgn x * \<bar>x\<bar>" by (simp add: sgn_mult_abs)
  then have x: "x = sgn x * (q * ulp)" using val by simp
  have "\<And>dx s r. dx = s * r * ulp \<Longrightarrow> x = s * (q * ulp) \<Longrightarrow> dx - x = s * ulp * (r - q)"
    by (simp add: algebra_simps)
  from this [OF d x]
  have "double x - x = sgn x * ulp * (of_int (round_half_even q) - q)" .
  then have "\<bar>double x - x\<bar> = ulp * \<bar>of_int (round_half_even q) - q\<bar>"
    using nz pos by (simp add: abs_mult abs_sgn_eq)
  also have "\<dots> \<le> ulp * (1 / 2)"
    using pos round_half_even_near [of q] by (intro mult_left_mono) simp_all
  also have "\<dots> = \<bar>x\<bar> / (q * 2)" using val qpos by (simp add: field_simps)
  also have "\<dots> \<le> \<bar>x\<bar> / (2 ^ 52 * 2)"
    using q qpos by (intro divide_left_mono) simp_all
  finally show ?thesis by simp
qed

lemma relative_error:
  fixes x y u :: rat
  assumes "x \<noteq> 0" and "\<bar>y - x\<bar> \<le> \<bar>x\<bar> * u"
  shows "\<exists>d. y = x * (1 + d) \<and> \<bar>d\<bar> \<le> u"
proof (intro exI conjI)
  show "y = x * (1 + (y - x) / x)" using assms(1) by (simp add: field_simps)
  have "\<bar>(y - x) / x\<bar> = \<bar>y - x\<bar> / \<bar>x\<bar>" by simp
  also have "\<dots> \<le> u" using assms by (simp add: field_simps)
  finally show "\<bar>(y - x) / x\<bar> \<le> u" .
qed


lemma three_roundings:
  fixes Y d1 d2 d3 u :: rat
  assumes u: "0 \<le> u" "u \<le> 1 / 5"
    and d: "\<bar>d1\<bar> \<le> u" "\<bar>d2\<bar> \<le> u" "\<bar>d3\<bar> \<le> u"
  shows "\<bar>Y * ((1 + d2) * (1 + d3)) / (1 + d1) - Y\<bar> \<le> \<bar>Y\<bar> * (4 * u)"
proof -
  have pos: "0 < 1 + d1" using u d by linarith
  have uu: "u * u \<le> u * (1 / 5)" using u by (intro mult_left_mono) simp_all
  have "\<bar>d2 * d3\<bar> \<le> u * u" using d u by (simp add: abs_mult mult_mono)
  then have N: "\<bar>d2 + d3 + d2 * d3 - d1\<bar> \<le> 3 * u + u * u" using d by linarith
  have "u * d1 \<ge> - (u * u)"
  proof -
    have "\<bar>u * d1\<bar> \<le> u * u" using d u by (simp add: abs_mult mult_mono)
    then show ?thesis by linarith
  qed
  then have "3 * u + u * u \<le> 4 * u * (1 + d1)" using uu by (simp add: algebra_simps)
  with N have N': "\<bar>d2 + d3 + d2 * d3 - d1\<bar> \<le> 4 * u * (1 + d1)" by linarith
  have "Y * ((1 + d2) * (1 + d3)) / (1 + d1) - Y = Y * ((d2 + d3 + d2 * d3 - d1) / (1 + d1))"
    using pos by (simp add: field_simps)
  then have "\<bar>Y * ((1 + d2) * (1 + d3)) / (1 + d1) - Y\<bar> =
               \<bar>Y\<bar> * (\<bar>d2 + d3 + d2 * d3 - d1\<bar> / (1 + d1))"
    using pos by (simp add: abs_mult)
  also have "\<dots> \<le> \<bar>Y\<bar> * (4 * u)"
    using N' pos by (intro mult_left_mono) (simp_all add: pos_divide_le_eq)
  finally show ?thesis .
qed

lemma hundredths_near:
  fixes n m :: int
  assumes m: "0 < m" "m \<le> 2 ^ 31" and n: "\<bar>n\<bar> \<le> 2 ^ 31"
  shows "\<bar>double (double (of_int n / double (of_int m / 60)) * 100)
           - of_int n * 6000 / of_int m\<bar> * (2 * of_int m) < 1"
proof (cases "n = 0")
  case True
  then show ?thesis by (simp add: double_def)
next
  case False
  define u :: rat where "u = 1 / 2 ^ 53"
  define A :: rat where "A = of_int m / 60"
  define a where "a = double A"
  define B where "B = of_int n / a"
  define b where "b = double B"
  define C where "C = b * 100"
  define v where "v = double C"
  define Y :: rat where "Y = of_int n * 6000 / of_int m"
  have u: "0 \<le> u" "u \<le> 1 / 5" by (simp_all add: u_def)
  have m1: "(1::rat) \<le> of_int m" using m by linarith
  have m2: "(of_int m :: rat) \<le> 2 ^ 31"
  proof -
    have "(of_int m :: rat) \<le> of_int (2 ^ 31)" using m(2) by (simp only: of_int_le_iff)
    then show ?thesis by simp
  qed
  have n1: "(1::rat) \<le> \<bar>of_int n\<bar>"
  proof -
    from False have "1 \<le> \<bar>n\<bar>" by linarith
    then have "(of_int 1 :: rat) \<le> of_int \<bar>n\<bar>" by (simp only: of_int_le_iff)
    then show ?thesis by simp
  qed
  have n2: "\<bar>of_int n :: rat\<bar> \<le> 2 ^ 31"
  proof -
    have "(of_int \<bar>n\<bar> :: rat) \<le> of_int (2 ^ 31)" using n by (simp only: of_int_le_iff)
    then show ?thesis by simp
  qed
  have A: "1 / 60 \<le> A" "A \<le> 2 ^ 31 / 60" using m1 m2 by (simp_all add: A_def)
  then have Apos: "0 < A" by linarith
  have "\<bar>a - A\<bar> \<le> \<bar>A\<bar> / 2 ^ 53"
    unfolding a_def using A by (intro double_near) (simp_all add: abs_if)
  then have a_err: "\<bar>a - A\<bar> \<le> \<bar>A\<bar> * u" by (simp add: u_def)
  then have a: "1 / 64 \<le> a" "a \<le> 2 ^ 26" using A Apos by (simp_all add: u_def abs_if split: if_splits)
  then have apos: "0 < a" by linarith
  have B: "1 / 2 ^ 26 \<le> \<bar>B\<bar>" "\<bar>B\<bar> \<le> 2 ^ 37"
  proof -
    have "\<bar>B\<bar> = \<bar>of_int n\<bar> / a" using apos by (simp add: B_def)
    moreover have "1 / 2 ^ 26 \<le> \<bar>of_int n :: rat\<bar> / a"
      using n1 a apos by (intro frac_le) simp_all
    moreover have "\<bar>of_int n :: rat\<bar> / a \<le> 2 ^ 31 / (1 / 64)"
      using n2 a by (intro frac_le) simp_all
    ultimately show "1 / 2 ^ 26 \<le> \<bar>B\<bar>" "\<bar>B\<bar> \<le> 2 ^ 37" by simp_all
  qed
  then have Bnz: "B \<noteq> 0" by auto
  have "\<bar>b - B\<bar> \<le> \<bar>B\<bar> / 2 ^ 53"
    unfolding b_def using B by (intro double_near) simp_all
  then have b_err: "\<bar>b - B\<bar> \<le> \<bar>B\<bar> * u" by (simp add: u_def)
  with abs_triangle_ineq2 [of b B] abs_triangle_ineq2_sym [of B b] B
  have b: "1 / 2 ^ 27 \<le> \<bar>b\<bar>" "\<bar>b\<bar> \<le> 2 ^ 38" by (simp_all add: u_def)
  have C: "1 / 2 ^ 27 \<le> \<bar>C\<bar>" "\<bar>C\<bar> \<le> 2 ^ 45" using b by (simp_all add: C_def abs_mult)
  then have Cnz: "C \<noteq> 0" by auto
  have "\<bar>v - C\<bar> \<le> \<bar>C\<bar> / 2 ^ 53"
    unfolding v_def using C by (intro double_near) simp_all
  then have v_err: "\<bar>v - C\<bar> \<le> \<bar>C\<bar> * u" by (simp add: u_def)
  from relative_error [OF _ a_err] Apos obtain d1 where d1: "a = A * (1 + d1)" "\<bar>d1\<bar> \<le> u" by auto
  from relative_error [OF Bnz b_err] obtain d2 where d2: "b = B * (1 + d2)" "\<bar>d2\<bar> \<le> u" by auto
  from relative_error [OF Cnz v_err] obtain d3 where d3: "v = C * (1 + d3)" "\<bar>d3\<bar> \<le> u" by auto
  have pos: "0 < 1 + d1" using d1 u by linarith
  have mnz: "(of_int m :: rat) \<noteq> 0" using m1 by linarith
  have "v = Y * ((1 + d2) * (1 + d3)) / (1 + d1)"
    using pos mnz by (simp add: d3 C_def d2 B_def d1 A_def Y_def field_simps)
  with three_roundings [OF u d1(2) d2(2) d3(2), of Y]
  have "\<bar>v - Y\<bar> \<le> \<bar>Y\<bar> * (4 * u)" by simp
  then have "\<bar>v - Y\<bar> * (2 * of_int m) \<le> \<bar>Y\<bar> * (4 * u) * (2 * of_int m)"
    using m1 by (intro mult_right_mono) simp_all
  also have "\<bar>Y\<bar> * (4 * u) * (2 * of_int m) = \<bar>of_int n\<bar> * (48000 * u)"
    using m1 mnz by (simp add: Y_def abs_mult field_simps abs_if)
  also have "\<dots> \<le> 2 ^ 31 * (48000 * u)"
    using n2 u by (intro mult_right_mono) simp_all
  also have "\<dots> < 1" by (simp add: u_def)
  finally show ?thesis by (simp add: v_def C_def b_def B_def a_def A_def Y_def)
qed

lemma Math_round_tie:
  fixes n m :: int and v :: rat
  assumes m: "0 < m"
    and near: "\<bar>v - of_int n * 6000 / of_int m\<bar> * (2 * of_int m) < 1"
  shows "\<bar>of_int (Math_round v) - of_int n * 6000 / of_int m :: rat\<bar> \<le> 1 / 2"
proof -
  define K where "K = Math_round v"
  define Y :: rat where "Y = of_int n * 6000 / of_int m"
  have mpos: "(0::rat) < of_int m" using m by simp
  have K: "of_int K \<le> v + 1 / 2" "v + 1 / 2 < of_int K + 1"
    unfolding K_def Math_round_def by linarith+
  have Ym: "Y * of_int m = of_int n * 6000" using mpos by (simp add: Y_def)
  have near': "\<bar>v - Y\<bar> * (2 * of_int m) < 1" using near by (simp add: Y_def)
  have up: "of_int K - Y \<le> 1 / 2"
  proof (rule ccontr)
    assume "\<not> of_int K - Y \<le> 1 / 2"
    then have "0 < (of_int K - 1 / 2 - Y) * (2 * of_int m)" using mpos by simp
    also have "(of_int K - 1 / 2 - Y) * (2 * of_int m) = of_int ((2 * K - 1) * m - 12000 * n)"
      using Ym by (simp add: algebra_simps)
    finally have "0 < (2 * K - 1) * m - 12000 * n" by (simp only: of_int_0_less_iff)
    then have "1 \<le> (2 * K - 1) * m - 12000 * n" by linarith
    then have "(of_int 1 :: rat) \<le> of_int ((2 * K - 1) * m - 12000 * n)"
      by (simp only: of_int_le_iff)
    also have "of_int ((2 * K - 1) * m - 12000 * n) = (of_int K - 1 / 2 - Y) * (2 * of_int m)"
      using Ym by (simp add: algebra_simps)
    also have "\<dots> \<le> \<bar>v - Y\<bar> * (2 * of_int m)"
      using K mpos by (intro mult_right_mono) linarith+
    finally show False using near' by simp
  qed
  have down: "Y - of_int K \<le> 1 / 2"
  proof (rule ccontr)
    assume "\<not> Y - of_int K \<le> 1 / 2"
    then have "0 < (Y - of_int K - 1 / 2) * (2 * of_int m)" using mpos by simp
    also have "(Y - of_int K - 1 / 2) * (2 * of_int m) = of_int (12000 * n - (2 * K + 1) * m)"
      using Ym by (simp add: algebra_simps)
    finally have "0 < 12000 * n - (2 * K + 1) * m" by (simp only: of_int_0_less_iff)
    then have "1 \<le> 12000 * n - (2 * K + 1) * m" by linarith
    then have "(of_int 1 :: rat) \<le> of_int (12000 * n - (2 * K + 1) * m)"
      by (simp only: of_int_le_iff)
    also have "of_int (12000 * n - (2 * K + 1) * m) = (Y - of_int K - 1 / 2) * (2 * of_int m)"
      using Ym by (simp add: algebra_simps)
    also have "\<dots> \<le> \<bar>v - Y\<bar> * (2 * of_int m)"
      using K mpos by (intro mult_right_mono) linarith+
    finally show False using near' by simp
  qed
  from up down have "\<bar>of_int K - Y\<bar> \<le> 1 / 2" by linarith
  then show ?thesis unfolding K_def Y_def .
qed


section \<open>The efficiency of a written row\<close>

text \<open>
  What the column stores for the efficiency the handler sends: the
  hundredths the handler rounded to, which are within half a hundredth of
  the exact quotient.
\<close>

lemma round_away_near:
  assumes "\<bar>z - of_int K\<bar> < 1 / 2"
  shows "round_away z = K"
proof (cases "0 \<le> z")
  case True
  have "\<lfloor>z + 1 / 2\<rfloor> = K" using assms by (intro floor_unique) linarith+
  with True show ?thesis by (simp add: round_away_def)
next
  case False
  have "of_int (- K) \<le> - z + 1 / 2" "- z + 1 / 2 < of_int (- K) + 1"
    unfolding of_int_minus using assms by linarith+
  then have "\<lfloor>- z + 1 / 2\<rfloor> = - K" by (rule floor_unique)
  with False show ?thesis by (simp add: round_away_def)
qed

lemma int4_bounds:
  assumes "int4 i"
  shows "\<bar>i\<bar> \<le> 2 ^ 31" and "i \<le> 2 ^ 31"
  using assms by (simp_all add: int4_def abs_le_iff)

lemma stored_efficiency:
  assumes n: "int4 n" and m: "int4 m"
    and eff: "numeric_5_2 (efficiency_of n m) = Some y"
  shows "(0 < m \<longrightarrow> rounded_2dp (of_int n / (of_int m / 60)) y) \<and> (m \<le> 0 \<longrightarrow> y = 0)"
proof (cases "0 < m")
  case False
  with eff show ?thesis by (simp add: efficiency_of_def numeric_5_2_0)
next
  case True
  define K where "K = Math_round (double (double (of_int n / double (of_int m / 60)) * 100))"
  define Y :: rat where "Y = of_int n * 6000 / of_int m"
  have near: "\<bar>of_int K - Y\<bar> \<le> 1 / 2"
    unfolding K_def Y_def
    by (rule Math_round_tie [OF True hundredths_near [OF True int4_bounds(2) [OF m]
          int4_bounds(1) [OF n]]])
  have m1: "(1::rat) \<le> of_int m" using True by linarith
  have n2: "\<bar>of_int n :: rat\<bar> \<le> 2 ^ 31"
  proof -
    have "(of_int \<bar>n\<bar> :: rat) \<le> of_int (2 ^ 31)"
      using int4_bounds(1) [OF n] by (simp only: of_int_le_iff)
    then show ?thesis by simp
  qed
  have "\<bar>Y\<bar> = \<bar>of_int n\<bar> * 6000 / of_int m" using m1 by (simp add: Y_def)
  also have "\<dots> \<le> 2 ^ 31 * 6000 / 1" using n2 m1 by (intro frac_le) simp_all
  finally have Yb: "\<bar>Y\<bar> \<le> 2 ^ 31 * 6000" by simp
  have Kb: "\<bar>of_int K :: rat\<bar> \<le> 2 ^ 45"
  proof -
    have "\<bar>of_int K :: rat\<bar> \<le> \<bar>Y\<bar> + \<bar>of_int K - Y\<bar>" by linarith
    also have "\<dots> \<le> 2 ^ 31 * 6000 + 1 / 2" using Yb near by linarith
    also have "\<dots> \<le> 2 ^ 45" by simp
    finally show ?thesis .
  qed
  have "round_away (double (of_int K / 100) * 100) = K"
  proof (cases "K = 0")
    case True
    then show ?thesis by (simp add: double_def round_away_def floor_half)
  next
    case False
    then have "1 \<le> \<bar>K\<bar>" by linarith
    then have "(of_int 1 :: rat) \<le> of_int \<bar>K\<bar>" by (simp only: of_int_le_iff)
    then have K1: "(1::rat) \<le> \<bar>of_int K\<bar>" by simp
    have "\<bar>double (of_int K / 100) - of_int K / 100\<bar> \<le> \<bar>of_int K / 100\<bar> / 2 ^ 53"
      using K1 Kb by (intro double_near) simp_all
    then have "\<bar>double (of_int K / 100) * 100 - of_int K\<bar> \<le> \<bar>of_int K\<bar> / 2 ^ 53"
      by (simp add: abs_if split: if_splits)
    also have "\<dots> \<le> 2 ^ 45 / 2 ^ 53" using Kb by (intro divide_right_mono) simp_all
    also have "\<dots> < 1 / 2" by simp
    finally show ?thesis by (rule round_away_near)
  qed
  with eff True have y: "y = of_int K / 100"
    by (simp add: efficiency_of_def numeric_5_2_def K_def Let_def split: if_splits)
  have "of_int n / (of_int m / 60) = Y / 100" using m1 by (simp add: Y_def)
  with near have "rounded_2dp (of_int n / (of_int m / 60)) y"
    by (simp add: rounded_2dp_def y abs_if split: if_splits)
  with True show ?thesis by simp
qed

text \<open>The rows a count leaves in the performance table that were not there before.\<close>

lemma update_performance_rows:
  assumes r: "r \<in> set (worker_performance (update_performance e d s w q))"
    and new: "r \<notin> set (worker_performance d)"
  shows "int4 (no_of_bins_counted r) \<and> int4 (time_taken_minutes r) \<and>
         numeric_5_2 (efficiency_of (no_of_bins_counted r) (time_taken_minutes r)) =
           Some (efficiency r)"
proof (cases "performance_today e d (user_id w)")
  case None
  with r new show ?thesis
    by (auto simp: update_performance_def Let_def insert_worker_performance_def not_checked_def
          COALESCE_def int4_or_absent_def or_0_def split: option.splits if_splits)
next
  case (Some p)
  with r new show ?thesis
    by (auto simp: update_performance_def Let_def update_worker_performance_def not_checked_def
          assigned_def COALESCE_def int4_or_absent_def or_0_def split: option.splits if_splits)
qed

lemma recordCount_performance:
  "worker_performance (fst (recordCount e d b)) = worker_performance d \<or>
   (\<exists>d1 s w. worker_performance d1 = worker_performance d \<and>
      worker_performance (fst (recordCount e d b)) =
        worker_performance (update_performance e d1 s w (qtyCountedWorker b)))"
proof (cases "\<exists>d' body'. recordCount e d b = (d', Response 200 body')")
  case True
  then obtain d' body' where ok: "recordCount e d b = (d', Response 200 body')" by blast
  then obtain s tln w d1 cd where
    "session_by_id d (sessionId b) = Some s"
    and "joined_user d (team_leader_id s) = Some tln"
    and "joined_user d (worker_id s) = Some w"
    and ins: "insert_counting_data e d (sessionId b) (cs_warehouse_name s) (user_id tln)
       (user_id w) (binNo b) (qtyCountedWorker b) (qtyAsPerBooks b) = Inr (d1, cd)"
    and wp: "worker_performance d' =
       worker_performance (update_performance e d1 s w (qtyCountedWorker b))"
    by (rule recordCount_ok)
  from insert_counting_data_tables [OF ins] have "worker_performance d1 = worker_performance d"
    by simp
  with wp ok show ?thesis by auto
next
  case False
  then have "fst (recordCount e d b) = d"
    by (auto simp: recordCount_def Let_def split: option.splits sum.splits)
  then show ?thesis by simp
qed

text \<open>The leaderboard writes ranks and nothing else.\<close>

lemma same_row:
  "x \<in> set rows \<Longrightarrow> \<exists>r \<in> set rows. x = r\<lparr>ranking := ranking x\<rparr>"
  by (intro bexI [of _ x]) simp_all

lemma update_rankings_rows:
  "r' \<in> set (worker_performance (update_rankings items d)) \<Longrightarrow>
     \<exists>r \<in> set (worker_performance d). r' = r\<lparr>ranking := ranking r'\<rparr>"
proof (induction items arbitrary: d r')
  case Nil
  then have "r' \<in> set (worker_performance d)" by (simp add: update_rankings_def)
  then show ?case by (intro bexI [of _ r']) simp_all
next
  case (Cons item items)
  define d1 where "d1 = not_checked d
             (update_worker_performance d (wp_id item)
                \<lparr>set_no_of_bins_counted = None, set_no_of_qty_counted = None,
                 set_time_taken_minutes = None, set_efficiency = None,
                 set_ranking = ranking item\<rparr>)"
  have step: "update_rankings (item # items) d = update_rankings items d1"
    by (simp add: update_rankings_def d1_def)
  have one: "\<And>x. x \<in> set (worker_performance d1) \<Longrightarrow>
               \<exists>r \<in> set (worker_performance d). x = r\<lparr>ranking := ranking x\<rparr>"
    by (auto simp: d1_def not_checked_def update_worker_performance_def assigned_def
          COALESCE_def intro: same_row split: if_splits option.splits)
  from Cons.prems step have "r' \<in> set (worker_performance (update_rankings items d1))" by simp
  from Cons.IH [OF this] obtain x where x: "x \<in> set (worker_performance d1)"
    and r': "r' = x\<lparr>ranking := ranking r'\<rparr>" by blast
  from one [OF x] obtain r where r: "r \<in> set (worker_performance d)"
    and xr: "x = r\<lparr>ranking := ranking x\<rparr>" by blast
  from r' xr have "r' = r\<lparr>ranking := ranking r'\<rparr>"
    by (metis WorkerPerformance.surjective WorkerPerformance.update_convs(9)
          WorkerPerformance.select_convs)
  with r show ?case by blast
qed

lemma listPerformance_rows:
  assumes "r' \<in> set (worker_performance (fst (listPerformance e d params)))"
  shows "\<exists>r \<in> set (worker_performance d). r' = r\<lparr>ranking := ranking r'\<rparr>"
proof (cases "\<exists>items. fst (listPerformance e d params) = update_rankings items d")
  case True
  with assms update_rankings_rows show ?thesis by auto
next
  case False
  then have "fst (listPerformance e d params) = d"
    by (auto simp: listPerformance_def Let_def split: sum.splits)
  with assms have "r' \<in> set (worker_performance d)" by simp
  then show ?thesis by (intro bexI [of _ r']) simp_all
qed

text \<open>
  C3. Every row a count leaves in the performance table that was not there
  before has, when its minutes are positive, an efficiency that is a whole
  number of hundredths at most half a hundredth from its bins divided by its
  minutes over 60, and efficiency 0 otherwise. The leaderboard writes no
  efficiency, no bins and no minutes: a row after it is a row before it, but
  for the rank. This is the claim, except where the quotient lies exactly
  halfway between two hundredths: there the double arithmetic of the handler
  may give the lower one, where rounding gives the upper.
\<close>

theorem recordCount_efficiency:
  "(\<forall>r \<in> set (worker_performance (fst (recordCount e d b))). r \<notin> set (worker_performance d) \<longrightarrow>
      (0 < time_taken_minutes r \<longrightarrow>
         rounded_2dp (of_int (no_of_bins_counted r) / (of_int (time_taken_minutes r) / 60))
           (efficiency r)) \<and>
      (time_taken_minutes r \<le> 0 \<longrightarrow> efficiency r = 0)) \<and>
   (\<forall>r' \<in> set (worker_performance (fst (listPerformance e d params))).
      \<exists>r \<in> set (worker_performance d). r' = r\<lparr>ranking := ranking r'\<rparr>)"
proof (intro conjI ballI impI)
  fix r
  assume r: "r \<in> set (worker_performance (fst (recordCount e d b)))"
    and new: "r \<notin> set (worker_performance d)"
  from recordCount_performance [of e d b] r new obtain d1 s w where
    same: "worker_performance d1 = worker_performance d"
    and "worker_performance (fst (recordCount e d b)) =
           worker_performance (update_performance e d1 s w (qtyCountedWorker b))"
    by auto
  with r new have "r \<in> set (worker_performance (update_performance e d1 s w (qtyCountedWorker b)))"
    and "r \<notin> set (worker_performance d1)" by simp_all
  from update_performance_rows [OF this]
  have "int4 (no_of_bins_counted r)" and "int4 (time_taken_minutes r)"
    and "numeric_5_2 (efficiency_of (no_of_bins_counted r) (time_taken_minutes r)) =
           Some (efficiency r)" by simp_all
  from stored_efficiency [OF this]
  show "0 < time_taken_minutes r \<Longrightarrow>
         rounded_2dp (of_int (no_of_bins_counted r) / (of_int (time_taken_minutes r) / 60))
           (efficiency r)"
    and "time_taken_minutes r \<le> 0 \<Longrightarrow> efficiency r = 0" by simp_all
next
  fix r'
  assume "r' \<in> set (worker_performance (fst (listPerformance e d params)))"
  then show "\<exists>r \<in> set (worker_performance d). r' = r\<lparr>ranking := ranking r'\<rparr>"
    by (rule listPerformance_rows)
qed

lemma efficiency_witness_rows:
  "worker_performance (fst (recordCount env_1 db_22 count_long)) = [performance_23]"
  by (simp add: recordCount_defs example_defs efficiency_23_736)

text \<open>
  The row of 23 bins and 736 minutes: the quotient is 1.875, halfway between
  1.87 and 1.88; rounding gives 1.88 and the handler stores 1.87.
\<close>

theorem recordCount_efficiency_tie:
  "worker_performance (fst (recordCount env_1 db_22 count_long)) = [performance_23] \<and>
   no_of_bins_counted performance_23 = 23 \<and> time_taken_minutes performance_23 = 736 \<and>
   efficiency performance_23 = 187 / 100 \<and>
   round_2dp (23 / (736 / 60)) = 188 / 100 \<and>
   efficiency performance_23 \<noteq>
     round_2dp (of_int (no_of_bins_counted performance_23) /
                (of_int (time_taken_minutes performance_23) / 60))"
  by (simp add: efficiency_witness_rows)
     (simp add: performance_23_def performance_W_def round_2dp_def floor_divide_numeral)

theorem recordCount_efficiency_witness:
  "performance_23 \<in> set (worker_performance (fst (recordCount env_1 db_22 count_long))) \<and>
   performance_23 \<notin> set (worker_performance db_22) \<and>
   0 < time_taken_minutes performance_23 \<and>
   rounded_2dp (23 / (736 / 60)) (187 / 100) \<and>
   performance_W \<in> set (worker_performance (fst (recordCount env_1 db_0 count_90))) \<and>
   performance_W \<notin> set (worker_performance db_0) \<and>
   time_taken_minutes performance_W \<le> 0 \<and> efficiency performance_W = 0"
proof -
  have a: "performance_23 \<in> set (worker_performance (fst (recordCount env_1 db_22 count_long)))"
    by (simp add: efficiency_witness_rows)
  have b: "performance_23 \<notin> set (worker_performance db_22)"
    by (simp add: db_22_def performance_22_def performance_23_def performance_W_def)
  have c: "0 < time_taken_minutes performance_23"
    by (simp add: performance_23_def)
  have a': "performance_W \<in> set (worker_performance (fst (recordCount env_1 db_0 count_90)))"
    by (simp add: count_90_on_db_0 db_1_def)
  have b': "performance_W \<notin> set (worker_performance db_0)"
    by (simp add: db_0_def)
  have c': "time_taken_minutes performance_W \<le> 0"
    by (simp add: performance_W_def)
  from recordCount_efficiency [of env_1 db_22 count_long] a b c
  have "rounded_2dp (of_int (no_of_bins_counted performance_23) /
                     (of_int (time_taken_minutes performance_23) / 60))
          (efficiency performance_23)"
    by blast
  then have d: "rounded_2dp (23 / (736 / 60)) (187 / 100)"
    by (simp add: performance_23_def)
  from recordCount_efficiency [of env_1 db_0 count_90] a' b' c'
  have d': "efficiency performance_W = 0" by blast
  from a b c d a' b' c' d' show ?thesis by simp
qed

section \<open>The figures of the day\<close>

text \<open>
  C8. The figures of the day are asked for by the id of a user. An id that
  is the id of no user is answered with 404, ``User not found''. For the id
  of a user, and the day the store reads the handler's date as: when no row
  of the table has the user's name and that day, the answer is 200 with all
  five figures 0; when exactly one row has, the answer is 200 with the
  figures of that row, a rank that is null read as 0. The store is left as
  it was. A request is such a request when its method is GET and \<open>today\<close> is
  among the parts of its path; the id is the last part.
\<close>

theorem getToday_stats:
  "(filter (\<lambda>u. u_id u = workerId) (users d) = [] \<longrightarrow>
      getToday e d workerId = Response 404 (Error ''User not found'')) \<and>
   (\<forall>u day. filter (\<lambda>u. u_id u = workerId) (users d) = [u] \<and> date_in e (today e) = Some day \<longrightarrow>
      (filter (\<lambda>p. wp_username p = user_id u \<and> wp_date p = day) (worker_performance d) = [] \<longrightarrow>
         getToday e d workerId =
           Response 200 (StatsJ \<lparr>todayBins = 0, todayQuantity = 0, todayTime = 0,
                                 stats_efficiency = 0, stats_ranking = 0\<rparr>)) \<and>
      (\<forall>p. filter (\<lambda>p. wp_username p = user_id u \<and> wp_date p = day) (worker_performance d) = [p] \<longrightarrow>
         getToday e d workerId =
           Response 200 (StatsJ \<lparr>todayBins = no_of_bins_counted p,
                                 todayQuantity = no_of_qty_counted p,
                                 todayTime = time_taken_minutes p,
                                 stats_efficiency = efficiency p,
                                 stats_ranking = (case ranking p of None \<Rightarrow> 0 | Some k \<Rightarrow> k)\<rparr>))) \<and>
   (\<forall>req. req_method req = ''GET'' \<and> ''today'' \<in> set (split CHR ''/'' (pathname req)) \<longrightarrow>
      worker_performance_serve e d req =
        (d, getToday e d (last (split CHR ''/'' (pathname req)))))"
  by (simp add: getToday_def performance_today_def or_0_def COALESCE_def Let_def
        worker_performance_serve_def)

lemmas dashboard_defs = db_dashboard_def db_0_def env_1_def worker_W_def leader_T_def
  performance_before_def performance_now_def workerA_def

theorem getToday_stats_witness:
  "filter (\<lambda>u. u_id u = ''uW'') (users db_dashboard) = [worker_W] \<and>
   date_in env_1 (today env_1) = Some (Date 2024 1 15) \<and>
   filter (\<lambda>p. wp_username p = user_id worker_W \<and> wp_date p = Date 2024 1 15)
     (worker_performance db_dashboard) = [performance_now] \<and>
   worker_performance_serve env_1 db_dashboard
     \<lparr>req_method = ''GET'', authorization = None, pathname = ''/worker-performance/today/uW'',
      searchParams = [], json = posted_A\<rparr> =
     (db_dashboard,
      Response 200 (StatsJ \<lparr>todayBins = 2, todayQuantity = 200, todayTime = 26,
                            stats_efficiency = 462 / 100, stats_ranking = 0\<rparr>)) \<and>
   filter (\<lambda>u. u_id u = ''uT'') (users db_dashboard) = [leader_T] \<and>
   filter (\<lambda>p. wp_username p = user_id leader_T \<and> wp_date p = Date 2024 1 15)
     (worker_performance db_dashboard) = [] \<and>
   getToday env_1 db_dashboard ''uT'' =
     Response 200 (StatsJ \<lparr>todayBins = 0, todayQuantity = 0, todayTime = 0,
                           stats_efficiency = 0, stats_ranking = 0\<rparr>)"
proof -
  have u: "filter (\<lambda>u. u_id u = ''uW'') (users db_dashboard) = [worker_W]"
    by (simp add: dashboard_defs)
  have t: "filter (\<lambda>u. u_id u = ''uT'') (users db_dashboard) = [leader_T]"
    by (simp add: dashboard_defs)
  have day: "date_in env_1 (today env_1) = Some (Date 2024 1 15)"
    by (simp add: env_1_def iso_date_15)
  have p: "filter (\<lambda>p. wp_username p = user_id worker_W \<and> wp_date p = Date 2024 1 15)
     (worker_performance db_dashboard) = [performance_now]"
    by (simp add: dashboard_defs)
  have q: "filter (\<lambda>p. wp_username p = user_id leader_T \<and> wp_date p = Date 2024 1 15)
     (worker_performance db_dashboard) = []"
    by (simp add: dashboard_defs)
  have path: "split CHR ''/'' ''/worker-performance/today/uW'' =
                [[], ''worker-performance'', ''today'', ''uW'']"
    by simp
  note inst = getToday_stats [of "''uW''" db_dashboard env_1]
  from inst u day p
  have "getToday env_1 db_dashboard ''uW'' =
           Response 200 (StatsJ \<lparr>todayBins = no_of_bins_counted performance_now,
                                 todayQuantity = no_of_qty_counted performance_now,
                                 todayTime = time_taken_minutes performance_now,
                                 stats_efficiency = efficiency performance_now,
                                 stats_ranking =
                                   (case ranking performance_now of None \<Rightarrow> 0 | Some k \<Rightarrow> k)\<rparr>)"
    by blast
  then have w: "getToday env_1 db_dashboard ''uW'' =
     Response 200 (StatsJ \<lparr>todayBins = 2, todayQuantity = 200, todayTime = 26,
                            stats_efficiency = 462 / 100, stats_ranking = 0\<rparr>)"
    by (simp add: performance_now_def)
  from inst have "\<forall>req. req_method req = ''GET'' \<and> ''today'' \<in> set (split CHR ''/'' (pathname req)) \<longrightarrow>
      worker_performance_serve env_1 db_dashboard req =
        (db_dashboard, getToday env_1 db_dashboard (last (split CHR ''/'' (pathname req))))"
    by blast
  then have "worker_performance_serve env_1 db_dashboard
     \<lparr>req_method = ''GET'', authorization = None, pathname = ''/worker-performance/today/uW'',
      searchParams = [], json = posted_A\<rparr> =
     (db_dashboard, getToday env_1 db_dashboard ''uW'')"
    by (simp add: path)
  with w have s: "worker_performance_serve env_1 db_dashboard
     \<lparr>req_method = ''GET'', authorization = None, pathname = ''/worker-performance/today/uW'',
      searchParams = [], json = posted_A\<rparr> =
     (db_dashboard,
      Response 200 (StatsJ \<lparr>todayBins = 2, todayQuantity = 200, todayTime = 26,
                            stats_efficiency = 462 / 100, stats_ranking = 0\<rparr>))"
    by simp
  from getToday_stats [of "''uT''" db_dashboard env_1] t day q
  have z: "getToday env_1 db_dashboard ''uT'' =
     Response 200 (StatsJ \<lparr>todayBins = 0, todayQuantity = 0, todayTime = 0,
                           stats_efficiency = 0, stats_ranking = 0\<rparr>)"
    by blast
  from u day p s t q z show ?thesis by simp
qed

text \<open>A request for the figures of an id that no user has.\<close>

theorem getToday_unknown_worker:
  "map u_id (users db_dashboard) = [''uW'', ''uT''] \<and>
   worker_performance_serve env_1 db_dashboard
     \<lparr>req_method = ''GET'', authorization = None, pathname = ''/worker-performance/today/uX'',
      searchParams = [], json = posted_A\<rparr> =
     (db_dashboard, Response 404 (Error ''User not found''))"
  by (simp add: worker_performance_serve_def getToday_def Let_def dashboard_defs)

section \<open>A posted performance row\<close>

text \<open>
  C9. \<open>POST /worker-performance\<close> inserts. It is answered with 400 and leaves
  the store as it was, or it is answered with 200, has appended one row to
  the table, which is the row of the answer and has the name and the
  warehouse of the body and an id no stored row has, and has changed no
  stored row. Which of the two, and the answer itself, depend on the stored
  rows through their ids only: a stored row of the same name and date is
  neither replaced nor a reason to refuse, and after a 200 the pair has one
  row more than before.
\<close>

theorem postPerformance_inserts:
  "((\<exists>err. postPerformance e d p = (d, Response 400 (StoreError err))) \<or>
    (\<exists>row. postPerformance e d p =
             (d\<lparr>worker_performance := worker_performance d @ [row]\<rparr>,
              Response 200 (PerformanceJ row)) \<and>
           pd_username p = Some (wp_username row) \<and> pd_wh_name p = Some (wp_wh_name row) \<and>
           wp_id row \<notin> set (map wp_id (worker_performance d)) \<and>
           length (filter (\<lambda>r. wp_username r = wp_username row \<and> wp_date r = wp_date row)
                     (worker_performance (fst (postPerformance e d p)))) =
             length (filter (\<lambda>r. wp_username r = wp_username row \<and> wp_date r = wp_date row)
                       (worker_performance d)) + 1)) \<and>
   (set (map wp_id (worker_performance d2)) = set (map wp_id (worker_performance d)) \<longrightarrow>
      snd (postPerformance e d2 p) = snd (postPerformance e d p))"
proof (rule conjI)
  show "(\<exists>err. postPerformance e d p = (d, Response 400 (StoreError err))) \<or>
    (\<exists>row. postPerformance e d p =
             (d\<lparr>worker_performance := worker_performance d @ [row]\<rparr>,
              Response 200 (PerformanceJ row)) \<and>
           pd_username p = Some (wp_username row) \<and> pd_wh_name p = Some (wp_wh_name row) \<and>
           wp_id row \<notin> set (map wp_id (worker_performance d)) \<and>
           length (filter (\<lambda>r. wp_username r = wp_username row \<and> wp_date r = wp_date row)
                     (worker_performance (fst (postPerformance e d p)))) =
             length (filter (\<lambda>r. wp_username r = wp_username row \<and> wp_date r = wp_date row)
                       (worker_performance d)) + 1)"
  proof (cases "insert_worker_performance e d p")
    case (Inl err)
    then show ?thesis by (simp add: postPerformance_def)
  next
    case (Inr pair)
    obtain d' row where pair: "pair = (d', row)" by (cases pair)
    with Inr have ins: "insert_worker_performance e d p = Inr (d', row)" by simp
    then have d': "d' = d\<lparr>worker_performance := worker_performance d @ [row]\<rparr>"
      and name: "pd_username p = Some (wp_username row)"
      and wh: "pd_wh_name p = Some (wp_wh_name row)"
      and new: "wp_id row \<notin> set (map wp_id (worker_performance d))"
      by (auto simp: insert_worker_performance_def Let_def split: option.splits if_splits)
    from ins d' have res: "postPerformance e d p =
             (d\<lparr>worker_performance := worker_performance d @ [row]\<rparr>,
              Response 200 (PerformanceJ row))"
      by (simp add: postPerformance_def)
    then have "length (filter (\<lambda>r. wp_username r = wp_username row \<and> wp_date r = wp_date row)
                     (worker_performance (fst (postPerformance e d p)))) =
             length (filter (\<lambda>r. wp_username r = wp_username row \<and> wp_date r = wp_date row)
                       (worker_performance d)) + 1"
      by simp
    with res name wh new show ?thesis by blast
  qed
next
  show "set (map wp_id (worker_performance d2)) = set (map wp_id (worker_performance d)) \<longrightarrow>
      snd (postPerformance e d2 p) = snd (postPerformance e d p)"
    by (simp add: postPerformance_def insert_worker_performance_def Let_def
          split: option.splits sum.splits)
qed

lemmas leaderboard_defs = db_leaderboard_def db_0_def params_leaderboard_def env_1_def
  workerA_def workerB_def workerC_def workerD_def workerE_def

lemma posted_A_on_leaderboard:
  "postPerformance env_1 db_leaderboard posted_A =
     (db_leaderboard\<lparr>worker_performance :=
        [workerA, workerB, workerC, workerD, workerE, inserted_A]\<rparr>,
      Response 200 (PerformanceJ inserted_A))"
  by (simp add: postPerformance_def insert_worker_performance_def COALESCE_def Let_def
        int4_def int4_or_absent_def iso_date_15 numeric_5_2_9 leaderboard_defs posted_A_def
        inserted_A_def)

theorem postPerformance_inserts_witness:
  "postPerformance env_1 db_leaderboard posted_A =
     (db_leaderboard\<lparr>worker_performance := worker_performance db_leaderboard @ [inserted_A]\<rparr>,
      Response 200 (PerformanceJ inserted_A)) \<and>
   pd_username posted_A = Some (wp_username inserted_A) \<and>
   wp_id inserted_A \<notin> set (map wp_id (worker_performance db_leaderboard)) \<and>
   length (filter (\<lambda>r. wp_username r = wp_username inserted_A \<and> wp_date r = wp_date inserted_A)
             (worker_performance (fst (postPerformance env_1 db_leaderboard posted_A)))) = 2 \<and>
   set (map wp_id (worker_performance (db_leaderboard\<lparr>worker_performance :=
          [workerE, workerD, workerC, workerB, workerA\<lparr>wp_username := ''other''\<rparr>]\<rparr>))) =
     set (map wp_id (worker_performance db_leaderboard)) \<and>
   snd (postPerformance env_1
          (db_leaderboard\<lparr>worker_performance :=
             [workerE, workerD, workerC, workerB, workerA\<lparr>wp_username := ''other''\<rparr>]\<rparr>) posted_A) =
     Response 200 (PerformanceJ inserted_A)"
proof -
  have ok: "postPerformance env_1 db_leaderboard posted_A =
     (db_leaderboard\<lparr>worker_performance := worker_performance db_leaderboard @ [inserted_A]\<rparr>,
      Response 200 (PerformanceJ inserted_A))"
    by (simp add: posted_A_on_leaderboard) (simp add: db_leaderboard_def)
  have ids: "set (map wp_id (worker_performance (db_leaderboard\<lparr>worker_performance :=
          [workerE, workerD, workerC, workerB, workerA\<lparr>wp_username := ''other''\<rparr>]\<rparr>))) =
     set (map wp_id (worker_performance db_leaderboard))"
    by (auto simp: leaderboard_defs)
  have old: "length (filter (\<lambda>r. wp_username r = wp_username inserted_A \<and>
                                  wp_date r = wp_date inserted_A)
                       (worker_performance db_leaderboard)) = 1"
    by (simp add: leaderboard_defs inserted_A_def)
  note inst = postPerformance_inserts [of env_1 db_leaderboard posted_A
      "db_leaderboard\<lparr>worker_performance :=
          [workerE, workerD, workerC, workerB, workerA\<lparr>wp_username := ''other''\<rparr>]\<rparr>"]
  from conjunct1 [OF inst]
  have "pd_username posted_A = Some (wp_username inserted_A) \<and>
        wp_id inserted_A \<notin> set (map wp_id (worker_performance db_leaderboard)) \<and>
        length (filter (\<lambda>r. wp_username r = wp_username inserted_A \<and>
                             wp_date r = wp_date inserted_A)
                  (worker_performance (fst (postPerformance env_1 db_leaderboard posted_A)))) =
          length (filter (\<lambda>r. wp_username r = wp_username inserted_A \<and>
                               wp_date r = wp_date inserted_A)
                    (worker_performance db_leaderboard)) + 1"
    unfolding ok by simp
  then have name: "pd_username posted_A = Some (wp_username inserted_A)"
    and new: "wp_id inserted_A \<notin> set (map wp_id (worker_performance db_leaderboard))"
    and two: "length (filter (\<lambda>r. wp_username r = wp_username inserted_A \<and>
                                  wp_date r = wp_date inserted_A)
             (worker_performance (fst (postPerformance env_1 db_leaderboard posted_A)))) = 2"
    using old by simp_all
  from conjunct2 [OF inst] ids have "snd (postPerformance env_1
          (db_leaderboard\<lparr>worker_performance :=
             [workerE, workerD, workerC, workerB, workerA\<lparr>wp_username := ''other''\<rparr>]\<rparr>) posted_A) =
     snd (postPerformance env_1 db_leaderboard posted_A)"
    by (rule mp)
  with ok have same: "snd (postPerformance env_1
          (db_leaderboard\<lparr>worker_performance :=
             [workerE, workerD, workerC, workerB, workerA\<lparr>wp_username := ''other''\<rparr>]\<rparr>) posted_A) =
     Response 200 (PerformanceJ inserted_A)"
    by simp
  from ok name new two ids same show ?thesis by simp
qed

text \<open>
  The row posted for worker A: the row that worker already has for the day
  stays as it is, and the pair has two rows.
\<close>

theorem postPerformance_upsert_counterexample:
  "postPerformance env_1 db_leaderboard posted_A =
     (db_leaderboard\<lparr>worker_performance :=
        [workerA, workerB, workerC, workerD, workerE, inserted_A]\<rparr>,
      Response 200 (PerformanceJ inserted_A)) \<and>
   wp_username inserted_A = wp_username workerA \<and> wp_date inserted_A = wp_date workerA \<and>
   wp_id inserted_A \<noteq> wp_id workerA"
  by (simp add: posted_A_on_leaderboard) (simp add: inserted_A_def workerA_def)

section \<open>The leaderboard\<close>

text \<open>The query: the rows it selects, and where it cuts them.\<close>

lemma selected_rows:
  assumes "selected e d params = Inr rows"
  obtains day where "date_in e (or_else (get params ''date'') (today e)) = Some day"
    and "rows = filter (\<lambda>p. wp_date p = day \<and>
                   (truthy (get params ''warehouse'') \<longrightarrow>
                      Some (wp_wh_name p) = get params ''warehouse''))
                 (worker_performance d)"
proof (cases "date_in e (or_else (get params ''date'') (today e))")
  case None
  with assms show ?thesis by (simp add: selected_def Let_def)
next
  case (Some day)
  with assms have "rows = filter (\<lambda>p. wp_date p = day \<and>
                   (truthy (get params ''warehouse'') \<longrightarrow>
                      Some (wp_wh_name p) = get params ''warehouse''))
                 (worker_performance d)"
    by (auto simp: selected_def Let_def)
  with Some that show ?thesis by blast
qed

lemma selected_refused:
  "date_in e (or_else (get params ''date'') (today e)) = None \<Longrightarrow>
     selected e d params = Inl invalid_datetime_format"
  by (simp add: selected_def Let_def)

lemma capped_take:
  "capped bound rows = take (case bound of None \<Rightarrow> length rows | Some k \<Rightarrow> k) rows"
  by (simp add: capped_def split: option.splits)

lemma limited_take:
  assumes "limited e limit rows = Inr data'"
  obtains k where "data' = take k rows"
proof -
  from assms obtain stop where "data' = capped (max_rows e) (capped stop rows)"
    by (auto simp: limited_def split: sum.splits)
  then obtain a b where "data' = take a (take b rows)"
    unfolding capped_take by blast
  then have "data' = take (min a b) rows" by simp
  with that show ?thesis by blast
qed

lemma limited_length:
  assumes "limited e (Some n) rows = Inr data'" and "0 \<le> n" and "n < 2 ^ 31"
  shows "length data' =
           (case max_rows e of None \<Rightarrow> min (nat n) (length rows)
            | Some c \<Rightarrow> min c (min (nat n) (length rows)))"
  using assms by (auto simp: limited_def capped_def split: option.splits)

text \<open>The ranks given to the rows of the answer.\<close>

lemma length_rankedData [simp]: "length (rankedData xs) = length xs"
  by (simp add: rankedData_def)

lemma nth_rankedData:
  "i < length xs \<Longrightarrow> rankedData xs ! i = (xs ! i)\<lparr>ranking := Some (int i + 1)\<rparr>"
  by (simp add: rankedData_def nth_enumerate_eq)

lemma map_wp_id_rankedData [simp]: "map wp_id (rankedData xs) = map wp_id xs"
  by (rule nth_equalityI) (simp_all add: nth_rankedData)

lemma map_efficiency_rankedData [simp]: "map efficiency (rankedData xs) = map efficiency xs"
  by (rule nth_equalityI) (simp_all add: nth_rankedData)

lemma rankedData_member:
  assumes "item \<in> set (rankedData xs)"
  shows "\<exists>x \<in> set xs. item = x\<lparr>ranking := ranking item\<rparr> \<and> wp_id x = wp_id item"
proof -
  from assms obtain i where i: "i < length xs" and it: "item = rankedData xs ! i"
    by (auto simp: in_set_conv_nth)
  then have "item = (xs ! i)\<lparr>ranking := Some (int i + 1)\<rparr>" by (simp add: nth_rankedData)
  with i show ?thesis by (intro bexI [of _ "xs ! i"]) auto
qed

lemma rankedData_ranks:
  assumes "item \<in> set (rankedData xs)" and "length xs < 2 ^ 31"
  shows "\<exists>k. ranking item = Some k \<and> int4 k"
proof -
  from assms obtain i where i: "i < length xs" and it: "item = rankedData xs ! i"
    by (auto simp: in_set_conv_nth)
  then have "ranking item = Some (int i + 1)" by (simp add: nth_rankedData)
  moreover have "int4 (int i + 1)" using i assms(2) by (simp add: int4_def)
  ultimately show ?thesis by blast
qed

lemma rankedData_descending:
  assumes "sorted_wrt (\<lambda>a b. efficiency b \<le> efficiency a) xs"
  shows "sorted_wrt (\<lambda>a b. efficiency b \<le> efficiency a) (rankedData xs)"
proof -
  from assms have "sorted_wrt (\<lambda>x y. y \<le> x) (map efficiency xs)"
    by (simp only: sorted_wrt_map)
  then have "sorted_wrt (\<lambda>x y. y \<le> x) (map efficiency (rankedData xs))"
    by (simp only: map_efficiency_rankedData)
  then show ?thesis by (simp only: sorted_wrt_map)
qed

text \<open>The rows of the answer before they are ranked: a prefix of the sorted selection.\<close>

lemma sorted_selection_descending:
  "sorted_wrt (\<lambda>a b. efficiency b \<le> efficiency a) (sort_key (\<lambda>p. - efficiency p) rows)"
proof -
  have "sorted (map (\<lambda>p. - efficiency p) (sort_key (\<lambda>p. - efficiency p) rows))"
    by (rule sorted_sort_key)
  then show ?thesis by (simp add: sorted_map)
qed

lemma distinct_ids_sorted_take:
  assumes "distinct (map wp_id xs)"
  shows "distinct (map wp_id (take n (sort_key f (filter P xs))))"
proof -
  have "distinct (map wp_id (filter P xs))" using assms by (rule distinct_map_filter)
  then have "distinct (map wp_id (sort_key f (filter P xs)))"
    by (simp add: distinct_map)
  then show ?thesis by (simp add: take_map [symmetric] del: take_map)
qed

lemma left_out_is_below:
  assumes sorted: "sorted_wrt (\<lambda>a b. efficiency b \<le> efficiency a) xs"
    and r: "r \<in> set xs" and out: "wp_id r \<notin> wp_id ` set (take k xs)"
    and x: "x \<in> set (take k xs)"
  shows "efficiency r \<le> efficiency x"
proof -
  from out have "r \<notin> set (take k xs)" by blast
  with r have "r \<in> set (drop k xs)"
    using set_append [of "take k xs" "drop k xs"] by simp
  moreover from sorted have "sorted_wrt (\<lambda>a b. efficiency b \<le> efficiency a) (take k xs @ drop k xs)"
    by simp
  ultimately show ?thesis using x by (simp only: sorted_wrt_append)
qed

text \<open>The loop that writes the ranks, row by row of the table.\<close>

lemma update_rankings_tables:
  "users (update_rankings items d) = users d \<and>
   counting_sessions (update_rankings items d) = counting_sessions d \<and>
   counting_data (update_rankings items d) = counting_data d \<and>
   audit_logs (update_rankings items d) = audit_logs d"
proof (induction items arbitrary: d)
  case Nil
  show ?case by (simp add: update_rankings_def)
next
  case (Cons a items)
  have "update_rankings (a # items) d =
          update_rankings items (not_checked d
             (update_worker_performance d (wp_id a)
                \<lparr>set_no_of_bins_counted = None, set_no_of_qty_counted = None,
                 set_time_taken_minutes = None, set_efficiency = None,
                 set_ranking = ranking a\<rparr>))"
    by (simp add: update_rankings_def)
  then show ?case by (simp add: Cons.IH update_worker_performance_tables)
qed

lemma update_rankings_map:
  assumes "\<forall>item \<in> set items. \<exists>k. ranking item = Some k \<and> int4 k"
  shows "worker_performance (update_rankings items d) =
           map (\<lambda>r. fold rank_step items r) (worker_performance d)"
  using assms
proof (induction items arbitrary: d)
  case Nil
  show ?case by (simp add: update_rankings_def)
next
  case (Cons a items)
  define d1 where "d1 = not_checked d
             (update_worker_performance d (wp_id a)
                \<lparr>set_no_of_bins_counted = None, set_no_of_qty_counted = None,
                 set_time_taken_minutes = None, set_efficiency = None,
                 set_ranking = ranking a\<rparr>)"
  have step: "update_rankings (a # items) d = update_rankings items d1"
    by (simp add: update_rankings_def d1_def)
  from Cons.prems obtain k where k: "ranking a = Some k" "int4 k" by auto
  have one: "\<And>r. assigned \<lparr>set_no_of_bins_counted = None, set_no_of_qty_counted = None,
                 set_time_taken_minutes = None, set_efficiency = None,
                 set_ranking = Some k\<rparr> None r = r\<lparr>ranking := Some k\<rparr>"
    by (simp add: assigned_def COALESCE_def)
  have "worker_performance d1 = map (rank_step a) (worker_performance d)"
    using k by (simp add: d1_def not_checked_def update_worker_performance_def
          int4_or_absent_def one rank_step_def)
  moreover have "worker_performance (update_rankings items d1) =
                   map (\<lambda>r. fold rank_step items r) (worker_performance d1)"
    by (rule Cons.IH) (use Cons.prems in simp)
  ultimately show ?case by (simp add: step)
qed

lemma fold_rank_step_absent:
  "wp_id r \<notin> wp_id ` set items \<Longrightarrow> fold rank_step items r = r"
  by (induction items arbitrary: r) (auto simp: rank_step_def)

lemma fold_rank_step_present:
  "distinct (map wp_id items) \<Longrightarrow> item \<in> set items \<Longrightarrow> wp_id r = wp_id item \<Longrightarrow>
     fold rank_step items r = r\<lparr>ranking := ranking item\<rparr>"
proof (induction items arbitrary: r)
  case Nil
  then show ?case by simp
next
  case (Cons a items)
  show ?case
  proof (cases "item = a")
    case True
    have "wp_id (rank_step a r) \<notin> wp_id ` set items"
      using Cons.prems True by (auto simp: rank_step_def)
    then have "fold rank_step items (rank_step a r) = rank_step a r"
      by (rule fold_rank_step_absent)
    moreover have "rank_step a r = r\<lparr>ranking := ranking item\<rparr>"
      using Cons.prems True by (simp add: rank_step_def)
    ultimately show ?thesis by simp
  next
    case False
    with Cons.prems have in_items: "item \<in> set items" by simp
    from Cons.prems in_items have "wp_id a \<noteq> wp_id item" by auto
    then have "rank_step a r = r" using Cons.prems by (simp add: rank_step_def)
    moreover have "fold rank_step items r = r\<lparr>ranking := ranking item\<rparr>"
      using Cons.prems in_items by (intro Cons.IH) simp_all
    ultimately show ?thesis by simp
  qed
qed

lemma persisted_row:
  assumes ids: "distinct (map wp_id rows)"
    and sub: "set xs \<subseteq> set rows"
    and dist: "distinct (map wp_id xs)"
    and r: "r \<in> set rows"
  shows "fold rank_step (rankedData xs) r =
           (case find (\<lambda>item. wp_id item = wp_id r) (rankedData xs) of
              None \<Rightarrow> r | Some item \<Rightarrow> item)"
proof (cases "find (\<lambda>item. wp_id item = wp_id r) (rankedData xs)")
  case None
  then have "wp_id r \<notin> wp_id ` set (rankedData xs)"
    by (auto simp: find_None_iff)
  then show ?thesis using None by (simp add: fold_rank_step_absent)
next
  case (Some item)
  then have mem: "item \<in> set (rankedData xs)"
    and same: "wp_id r = wp_id item"
    by (auto simp: find_Some_iff)
  have "distinct (map wp_id (rankedData xs))" using dist by simp
  then have f: "fold rank_step (rankedData xs) r = r\<lparr>ranking := ranking item\<rparr>"
    using mem same by (rule fold_rank_step_present)
  from rankedData_member [OF mem] obtain x where
    x: "x \<in> set xs" and
    ix: "item = x\<lparr>ranking := ranking item\<rparr>" and idx: "wp_id x = wp_id item"
    by blast
  from x sub have xin: "x \<in> set rows" by blast
  have "inj_on wp_id (set rows)" using ids by (simp add: distinct_map)
  moreover have "wp_id x = wp_id r" using idx same by simp
  ultimately have "x = r" using xin r by (rule inj_onD)
  with ix f Some show ?thesis by simp
qed

lemma update_rankings_db:
  "update_rankings items d = d\<lparr>worker_performance := worker_performance (update_rankings items d)\<rparr>"
  by (rule db.equality) (simp_all add: update_rankings_tables)

text \<open>
  C2. When the ids of the table are distinct, an answer of 200 holds rows
  with these properties, where the day is the one the store reads the
  \<open>date\<close> parameter as, or the handler's date when there is none. The row at
  position \<open>i\<close>, from 0, has the rank \<open>i + 1\<close>: the ranks are 1, 2, ... up to the
  number of rows of the answer. The rows are in descending efficiency and
  no two have the same id. Each is a stored row of that day (and of the
  warehouse when one is given), with the rank in place of the stored one;
  every stored row of that day (and warehouse) whose id is not in the
  answer has at most the efficiency of every row of the answer. With a
  limit that is a number from 0 to below \<open>2 ^ 31\<close>, the answer has as many
  rows as the limit, the number of stored rows of that day (and warehouse)
  and the store's bound on an answer allow. When the answer has fewer than
  \<open>2 ^ 31\<close> rows (a rank from there on does not fit the column), the store
  afterwards is the store before with each row of the table whose id is in
  the answer replaced by the row of the answer, rank included, and every
  other row, ranked before or not, as it was. A date text the store refuses
  is answered with 400 and the store is left as it was; every answer is
  either such a 400 or a 200.
\<close>

theorem listPerformance_ranking:
  assumes ids: "distinct (map wp_id (worker_performance d))"
  shows
   "(\<forall>out d' day.
       listPerformance e d params = (d', Response 200 (PerformanceList out)) \<longrightarrow>
       date_in e (or_else (get params ''date'') (today e)) = Some day \<longrightarrow>
       (\<forall>i < length out. ranking (out ! i) = Some (int i + 1)) \<and>
       sorted_wrt (\<lambda>a b. efficiency b \<le> efficiency a) out \<and>
       distinct (map wp_id out) \<and>
       (\<forall>r' \<in> set out. \<exists>r \<in> set (worker_performance d).
          r' = r\<lparr>ranking := ranking r'\<rparr> \<and> wp_date r = day \<and>
          (truthy (get params ''warehouse'') \<longrightarrow>
             Some (wp_wh_name r) = get params ''warehouse'')) \<and>
       (\<forall>r \<in> set (worker_performance d).
          wp_date r = day \<and>
          (truthy (get params ''warehouse'') \<longrightarrow>
             Some (wp_wh_name r) = get params ''warehouse'') \<and>
          wp_id r \<notin> wp_id ` set out \<longrightarrow>
          (\<forall>r' \<in> set out. efficiency r \<le> efficiency r')) \<and>
       (\<forall>n. parseInt (or_else (get params ''limit'') ''50'') = Some n \<and> 0 \<le> n \<and> n < 2 ^ 31 \<longrightarrow>
          length out =
            (case max_rows e of
               None \<Rightarrow>
                 min (nat n)
                   (length (filter (\<lambda>r. wp_date r = day \<and>
                      (truthy (get params ''warehouse'') \<longrightarrow>
                         Some (wp_wh_name r) = get params ''warehouse''))
                      (worker_performance d)))
             | Some c \<Rightarrow>
                 min c (min (nat n)
                   (length (filter (\<lambda>r. wp_date r = day \<and>
                      (truthy (get params ''warehouse'') \<longrightarrow>
                         Some (wp_wh_name r) = get params ''warehouse''))
                      (worker_performance d)))))) \<and>
       (length out < 2 ^ 31 \<longrightarrow>
          d' = d\<lparr>worker_performance :=
                  map (\<lambda>r. case find (\<lambda>r'. wp_id r' = wp_id r) out of
                             None \<Rightarrow> r | Some r' \<Rightarrow> r')
                    (worker_performance d)\<rparr>)) \<and>
    (date_in e (or_else (get params ''date'') (today e)) = None \<longrightarrow>
       listPerformance e d params = (d, Response 400 (StoreError invalid_datetime_format))) \<and>
    ((\<exists>err. listPerformance e d params = (d, Response 400 (StoreError err))) \<or>
     (\<exists>out d'. listPerformance e d params = (d', Response 200 (PerformanceList out))))"
  (is "(\<forall>out d' day. ?ok out d' \<longrightarrow> ?day day \<longrightarrow>
         ?p1 out \<and> ?p2 out \<and> ?p3 out \<and> ?p4 out day \<and> ?p5 out day \<and> ?p6 out day \<and> ?p7 out d') \<and>
       ?B \<and> ?C")
proof -
  have A: "\<forall>out d' day. ?ok out d' \<longrightarrow> ?day day \<longrightarrow>
         ?p1 out \<and> ?p2 out \<and> ?p3 out \<and> ?p4 out day \<and> ?p5 out day \<and> ?p6 out day \<and> ?p7 out d'"
  proof (rule allI, rule allI, rule allI, rule impI, rule impI)
  fix out d' day
  assume ok: "?ok out d'" and day: "?day day"
  define pred :: "WorkerPerformance \<Rightarrow> bool" where "pred = (\<lambda>r. wp_date r = day \<and>
          (truthy (get params ''warehouse'') \<longrightarrow>
             Some (wp_wh_name r) = get params ''warehouse''))"
  define srt where "srt = sort_key (\<lambda>p. - efficiency p) (filter pred (worker_performance d))"
  from ok obtain rows data' where sel: "selected e d params = Inr rows"
    and lim: "limited e (parseInt (or_else (get params ''limit'') ''50''))
                (sort_key (\<lambda>p. - efficiency p) rows) = Inr data'"
    and out: "out = rankedData data'" and d': "d' = update_rankings out d"
    by (auto simp: listPerformance_def Let_def split: sum.splits)
  from sel day have rows: "rows = filter pred (worker_performance d)"
    unfolding pred_def by (elim selected_rows) simp
  from lim rows have lim': "limited e (parseInt (or_else (get params ''limit'') ''50'')) srt = Inr data'"
    by (simp add: srt_def)
  from lim' obtain k where k: "data' = take k srt" by (rule limited_take)
  have srt_sorted: "sorted_wrt (\<lambda>a b. efficiency b \<le> efficiency a) srt"
    unfolding srt_def by (rule sorted_selection_descending)
  have srt_set: "set srt = {r \<in> set (worker_performance d). pred r}"
    by (auto simp: srt_def)
  have data_sub: "set data' \<subseteq> set srt" unfolding k by (rule set_take_subset)
  have data_ids: "distinct (map wp_id data')"
    unfolding k srt_def using ids by (rule distinct_ids_sorted_take)
  have p1: "?p1 out" by (simp add: out nth_rankedData)
  have p2: "?p2 out"
    unfolding out k by (rule rankedData_descending) (rule sorted_wrt_take [OF srt_sorted])
  have p3: "?p3 out" using data_ids by (simp add: out)
  have p4: "?p4 out day"
  proof
    fix r' assume "r' \<in> set out"
    then have "r' \<in> set (rankedData data')" by (simp add: out)
    from rankedData_member [OF this] obtain x where x: "x \<in> set data'"
      and r': "r' = x\<lparr>ranking := ranking r'\<rparr>" by blast
    from x data_sub srt_set have "x \<in> set (worker_performance d)" and "pred x" by auto
    with r' show "\<exists>r \<in> set (worker_performance d).
          r' = r\<lparr>ranking := ranking r'\<rparr> \<and> wp_date r = day \<and>
          (truthy (get params ''warehouse'') \<longrightarrow>
             Some (wp_wh_name r) = get params ''warehouse'')"
      unfolding pred_def by (intro bexI [of _ x] conjI) simp_all
  qed
  have p5: "?p5 out day"
  proof (intro ballI impI)
    fix r r'
    assume r: "r \<in> set (worker_performance d)"
      and h: "wp_date r = day \<and>
          (truthy (get params ''warehouse'') \<longrightarrow>
             Some (wp_wh_name r) = get params ''warehouse'') \<and>
          wp_id r \<notin> wp_id ` set out"
      and r': "r' \<in> set out"
    from r h srt_set have rin: "r \<in> set srt" by (simp add: pred_def)
    have img: "wp_id ` set out = wp_id ` set (take k srt)"
      using map_wp_id_rankedData [of data'] unfolding out k
      by (metis set_map)
    from h img have no: "wp_id r \<notin> wp_id ` set (take k srt)" by simp
    from r' have "r' \<in> set (rankedData data')" by (simp add: out)
    from rankedData_member [OF this] obtain x where x: "x \<in> set data'"
      and xr: "r' = x\<lparr>ranking := ranking r'\<rparr>" by blast
    from x have "x \<in> set (take k srt)" by (simp add: k)
    from left_out_is_below [OF srt_sorted rin no this]
    have "efficiency r \<le> efficiency x" .
    moreover from xr have "efficiency r' = efficiency x"
      by (metis WorkerPerformance.select_convs(8) WorkerPerformance.surjective
            WorkerPerformance.update_convs(9))
    ultimately show "efficiency r \<le> efficiency r'" by simp
  qed
  have p6: "?p6 out day"
  proof (intro allI impI)
    fix n
    assume n: "parseInt (or_else (get params ''limit'') ''50'') = Some n \<and> 0 \<le> n \<and> n < 2 ^ 31"
    with lim' have "limited e (Some n) srt = Inr data'" by simp
    from limited_length [OF this] n
    have "length data' =
           (case max_rows e of None \<Rightarrow> min (nat n) (length srt)
            | Some c \<Rightarrow> min c (min (nat n) (length srt)))"
      by simp
    moreover have "length srt = length (filter pred (worker_performance d))"
      by (simp add: srt_def)
    ultimately show "length out =
            (case max_rows e of
               None \<Rightarrow>
                 min (nat n)
                   (length (filter (\<lambda>r. wp_date r = day \<and>
                      (truthy (get params ''warehouse'') \<longrightarrow>
                         Some (wp_wh_name r) = get params ''warehouse''))
                      (worker_performance d)))
             | Some c \<Rightarrow>
                 min c (min (nat n)
                   (length (filter (\<lambda>r. wp_date r = day \<and>
                      (truthy (get params ''warehouse'') \<longrightarrow>
                         Some (wp_wh_name r) = get params ''warehouse''))
                      (worker_performance d)))))"
      by (simp add: out pred_def split: option.splits)
  qed
  have p7: "?p7 out d'"
  proof
    assume len: "length out < 2 ^ 31"
    then have "length data' < 2 ^ 31" by (simp add: out)
    then have ranks: "\<forall>item \<in> set out. \<exists>k. ranking item = Some k \<and> int4 k"
      unfolding out using rankedData_ranks by blast
    have sub: "set data' \<subseteq> set (worker_performance d)"
      using data_sub srt_set by auto
    have "worker_performance d' = map (\<lambda>r. fold rank_step out r) (worker_performance d)"
      unfolding d' using ranks by (rule update_rankings_map)
    also have "\<dots> = map (\<lambda>r. case find (\<lambda>r'. wp_id r' = wp_id r) out of
                              None \<Rightarrow> r | Some r' \<Rightarrow> r')
                     (worker_performance d)"
      unfolding out by (rule map_cong [OF refl]) (rule persisted_row [OF ids sub data_ids])
    finally have "worker_performance d' =
       map (\<lambda>r. case find (\<lambda>r'. wp_id r' = wp_id r) out of None \<Rightarrow> r | Some r' \<Rightarrow> r')
         (worker_performance d)" .
    with update_rankings_db [of out d] show "d' = d\<lparr>worker_performance :=
                  map (\<lambda>r. case find (\<lambda>r'. wp_id r' = wp_id r) out of
                             None \<Rightarrow> r | Some r' \<Rightarrow> r')
                    (worker_performance d)\<rparr>"
      by (simp add: d')
  qed
  show "?p1 out \<and> ?p2 out \<and> ?p3 out \<and> ?p4 out day \<and> ?p5 out day \<and> ?p6 out day \<and> ?p7 out d'"
    by (rule conjI [OF p1 conjI [OF p2 conjI [OF p3 conjI [OF p4 conjI [OF p5 conjI [OF p6 p7]]]]]])
  qed
  have B: ?B
  proof
    assume "date_in e (or_else (get params ''date'') (today e)) = None"
    from selected_refused [OF this] show
      "listPerformance e d params = (d, Response 400 (StoreError invalid_datetime_format))"
      by (simp add: listPerformance_def)
  qed
  have C: ?C
    by (cases "selected e d params";
        cases "limited e (parseInt (or_else (get params ''limit'') ''50''))
                 (sort_key (\<lambda>p. - efficiency p) (projr (selected e d params)))")
       (simp_all add: listPerformance_def Let_def)
  show ?thesis by (rule conjI [OF A conjI [OF B C]])
qed

lemmas listPerformance_defs = listPerformance_def selected_def limited_def capped_def Let_def
  get_def or_else_def truthy_def parseInt_def digit_of_def is_white_space_def
  rankedData_def enumerate_eq_zip update_rankings_def update_worker_performance_def
  not_checked_def assigned_def COALESCE_def int4_def int4_or_absent_def

lemma leaderboard_example:
  "listPerformance env_1 db_leaderboard params_leaderboard =
     (db_leaderboard\<lparr>worker_performance :=
        [workerA\<lparr>ranking := Some 1\<rparr>, workerB, workerC\<lparr>ranking := Some 2\<rparr>, workerD, workerE]\<rparr>,
      Response 200 (PerformanceList [workerA\<lparr>ranking := Some 1\<rparr>, workerC\<lparr>ranking := Some 2\<rparr>]))"
  by (simp add: listPerformance_defs iso_date_15 leaderboard_defs)

lemma leaderboard_example_short_date:
  "listPerformance env_1 db_leaderboard
     [(''date'', ''2024-1-15''), (''warehouse'', ''A''), (''limit'', ''2'')] =
   listPerformance env_1 db_leaderboard params_leaderboard"
  by (simp add: listPerformance_defs iso_date_15 iso_date_short leaderboard_defs)

theorem listPerformance_ranking_witness:
  "distinct (map wp_id (worker_performance db_leaderboard)) \<and>
   map efficiency (worker_performance db_leaderboard) = [5, 3, 4, 9, 8] \<and>
   date_in env_1 (or_else (get params_leaderboard ''date'') (today env_1)) = Some (Date 2024 1 15) \<and>
   listPerformance env_1 db_leaderboard params_leaderboard =
     (db_leaderboard\<lparr>worker_performance :=
        [workerA\<lparr>ranking := Some 1\<rparr>, workerB, workerC\<lparr>ranking := Some 2\<rparr>, workerD, workerE]\<rparr>,
      Response 200 (PerformanceList [workerA\<lparr>ranking := Some 1\<rparr>, workerC\<lparr>ranking := Some 2\<rparr>])) \<and>
   map ranking [workerA\<lparr>ranking := Some 1\<rparr>, workerC\<lparr>ranking := Some 2\<rparr>] = [Some 1, Some 2] \<and>
   ranking workerB = None \<and>
   listPerformance env_1 db_leaderboard
     [(''date'', ''2024-1-15''), (''warehouse'', ''A''), (''limit'', ''2'')] =
     listPerformance env_1 db_leaderboard params_leaderboard \<and>
   date_in env_1 (or_else (get [(''date'', ''garbage'')] ''date'') (today env_1)) = None \<and>
   listPerformance env_1 db_leaderboard [(''date'', ''garbage'')] =
     (db_leaderboard, Response 400 (StoreError invalid_datetime_format))"
proof -
  have ids: "distinct (map wp_id (worker_performance db_leaderboard))"
    by (simp add: leaderboard_defs)
  have eff: "map efficiency (worker_performance db_leaderboard) = [5, 3, 4, 9, 8]"
    by (simp add: leaderboard_defs)
  have day: "date_in env_1 (or_else (get params_leaderboard ''date'') (today env_1)) =
               Some (Date 2024 1 15)"
    by (simp add: get_def or_else_def params_leaderboard_def env_1_def iso_date_15)
  have no_day: "date_in env_1 (or_else (get [(''date'', ''garbage'')] ''date'') (today env_1)) = None"
    by (simp add: get_def or_else_def env_1_def iso_date_garbage)
  note answer = listPerformance_ranking [OF ids, of env_1 params_leaderboard]
  note ranked = conjunct1 [OF answer, rule_format, OF leaderboard_example day]
  from conjunct1 [OF ranked]
  have "\<forall>i<length [workerA\<lparr>ranking := Some 1\<rparr>, workerC\<lparr>ranking := Some 2\<rparr>].
          ranking ([workerA\<lparr>ranking := Some 1\<rparr>, workerC\<lparr>ranking := Some 2\<rparr>] ! i) =
            Some (int i + 1)" .
  then have ranks: "map ranking [workerA\<lparr>ranking := Some 1\<rparr>, workerC\<lparr>ranking := Some 2\<rparr>] =
                      [Some 1, Some 2]"
    by simp
  have b: "ranking workerB = None" by (simp add: workerB_def)
  note refused = listPerformance_ranking [OF ids, of env_1 "[(''date'', ''garbage'')]"]
  from conjunct1 [OF conjunct2 [OF refused]] no_day
  have bad: "listPerformance env_1 db_leaderboard [(''date'', ''garbage'')] =
     (db_leaderboard, Response 400 (StoreError invalid_datetime_format))"
    by (rule mp)
  from ids eff day leaderboard_example ranks b leaderboard_example_short_date no_day bad
  show ?thesis by simp
qed

end
